theory Spec2Isabelle
  imports Main "HOL-Library.Word" "HOL-Library.Signed_Division"
begin

unbundle bit_operations_syntax

section \<open>The b9 virtual machine\<close>

text \<open>
  The sources hold three revisions of the interpreter core in \<^verbatim>\<open>src/b9/core.cpp\<close>:
  \<^item> revision 1 (lines 1-494): \<^verbatim>\<open>ExecutionContext::interpret\<close> over a stack of 64-bit
    integers, with the dispatch to compiled code inside \<^verbatim>\<open>interpret\<close>;
  \<^item> revision 2 (lines 495-957): \<^verbatim>\<open>callFunction\<close>, \<^verbatim>\<open>interpretFunction\<close>,
    \<^verbatim>\<open>callJitFunction\<close> and \<^verbatim>\<open>callJitFunctionWithPassParam\<close> over the same stack;
  \<^item> revision 3 (lines 958-1348): \<^verbatim>\<open>ExecutionContext::interpret\<close> over a stack of
    tagged values, with the \<^verbatim>\<open>do...\<close> bytecode implementations.
  Definitions that exist in one revision only keep the name of the source; where two
  revisions use one name for different code, the name carries the suffix \<open>_r1\<close>,
  \<open>_r2\<close> or \<open>_r3\<close>. Functions whose text is the same in revisions 1 and 2
  (\<^verbatim>\<open>push\<close>, \<^verbatim>\<open>pop\<close>, \<^verbatim>\<open>intAdd\<close>, ...) are embedded once.

  Output to \<^verbatim>\<open>std::cout\<close> and \<^verbatim>\<open>std::cerr\<close> is not part of the state and is left out.
\<close>

subsection \<open>Instructions (\<^verbatim>\<open>src/b9/include/b9/interpreter.hpp\<close>, lines 176-448)\<close>

type_synonym RawByteCode = "8 word"

text \<open>\<^verbatim>\<open>enum class ByteCode : RawByteCode\<close>: every 8-bit value is a value of the type.\<close>

type_synonym ByteCode = "8 word"

definition ByteCode_END_SECTION :: ByteCode where "ByteCode_END_SECTION = 0x0"
definition ByteCode_FUNCTION_CALL :: ByteCode where "ByteCode_FUNCTION_CALL = 0x1"
definition ByteCode_FUNCTION_RETURN :: ByteCode where "ByteCode_FUNCTION_RETURN = 0x2"
definition ByteCode_PRIMITIVE_CALL :: ByteCode where "ByteCode_PRIMITIVE_CALL = 0x3"
definition ByteCode_DUPLICATE :: ByteCode where "ByteCode_DUPLICATE = 0x4"
definition ByteCode_DROP :: ByteCode where "ByteCode_DROP = 0x5"
definition ByteCode_PUSH_FROM_VAR :: ByteCode where "ByteCode_PUSH_FROM_VAR = 0x6"
definition ByteCode_POP_INTO_VAR :: ByteCode where "ByteCode_POP_INTO_VAR = 0x7"
definition ByteCode_ADD :: ByteCode where "ByteCode_ADD = 0x8"
definition ByteCode_SUB :: ByteCode where "ByteCode_SUB = 0x9"
definition ByteCode_MUL :: ByteCode where "ByteCode_MUL = 0xa"
definition ByteCode_DIV :: ByteCode where "ByteCode_DIV = 0xb"
definition ByteCode_INT_PUSH_CONSTANT :: ByteCode where "ByteCode_INT_PUSH_CONSTANT = 0xc"
definition ByteCode_NOT :: ByteCode where "ByteCode_NOT = 0xd"
definition ByteCode_JMP :: ByteCode where "ByteCode_JMP = 0xe"
definition ByteCode_JMP_EQ_EQ :: ByteCode where "ByteCode_JMP_EQ_EQ = 0xf"
definition ByteCode_JMP_EQ_NEQ :: ByteCode where "ByteCode_JMP_EQ_NEQ = 0x10"
definition ByteCode_JMP_EQ_GT :: ByteCode where "ByteCode_JMP_EQ_GT = 0x11"
definition ByteCode_JMP_EQ_GE :: ByteCode where "ByteCode_JMP_EQ_GE = 0x12"
definition ByteCode_JMP_EQ_LT :: ByteCode where "ByteCode_JMP_EQ_LT = 0x13"
definition ByteCode_JMP_EQ_LE :: ByteCode where "ByteCode_JMP_EQ_LE = 0x14"
definition ByteCode_STR_PUSH_CONSTANT :: ByteCode where "ByteCode_STR_PUSH_CONSTANT = 0x15"
definition ByteCode_NEW_OBJECT :: ByteCode where "ByteCode_NEW_OBJECT = 0x20"
definition ByteCode_PUSH_FROM_OBJECT :: ByteCode where "ByteCode_PUSH_FROM_OBJECT = 0x21"
definition ByteCode_POP_INTO_OBJECT :: ByteCode where "ByteCode_POP_INTO_OBJECT = 0x22"
definition ByteCode_CALL_INDIRECT :: ByteCode where "ByteCode_CALL_INDIRECT = 0x23"
definition ByteCode_SYSTEM_COLLECT :: ByteCode where "ByteCode_SYSTEM_COLLECT = 0x24"

type_synonym RawInstruction = "32 word"

text \<open>\<^verbatim>\<open>using Parameter = std::int32_t\<close>: a 32-bit word, read as signed with \<^const>\<open>sint\<close>.\<close>

type_synonym Parameter = "32 word"

text \<open>\<^verbatim>\<open>class Instruction\<close> holds one field, \<^verbatim>\<open>RawInstruction raw_\<close>.\<close>

type_synonym Instruction = "32 word"

definition BYTECODE_SHIFT :: nat where
  "BYTECODE_SHIFT = 24"

definition PARAMETER_MASK :: RawInstruction where
  "PARAMETER_MASK = 0x00FFFFFF"

definition BYTECODE_MASK :: RawInstruction where
  "BYTECODE_MASK = NOT PARAMETER_MASK"

text \<open>\<^verbatim>\<open>Instruction(ByteCode bc, Parameter p)\<close>:
  \<^verbatim>\<open>raw_{(RawInstruction(bc) << BYTECODE_SHIFT) | (p & PARAMETER_MASK)}\<close>.\<close>

definition Instruction :: "ByteCode \<Rightarrow> Parameter \<Rightarrow> Instruction" where
  "Instruction bc p = push_bit BYTECODE_SHIFT (ucast bc) OR (p AND PARAMETER_MASK)"

text \<open>\<^verbatim>\<open>byteCode()\<close>: \<^verbatim>\<open>static_cast<ByteCode>(raw_ >> BYTECODE_SHIFT)\<close>.\<close>

definition byteCode :: "Instruction \<Rightarrow> ByteCode" where
  "byteCode raw = ucast (drop_bit BYTECODE_SHIFT raw)"

text \<open>\<^verbatim>\<open>parameter()\<close>: the low 24 bits, with \<^verbatim>\<open>param |= 0xFF00'0000\<close> when
  \<^verbatim>\<open>param & 0x0080'0000\<close> is not zero.\<close>

definition parameter :: "Instruction \<Rightarrow> Parameter" where
  "parameter raw =
     (let param = raw AND PARAMETER_MASK
      in if param AND 0x00800000 \<noteq> 0 then param OR 0xFF000000 else param)"

text \<open>\<^verbatim>\<open>static constexpr Instruction END_SECTION{ByteCode::END_SECTION, 0}\<close>.\<close>

definition END_SECTION :: Instruction where
  "END_SECTION = Instruction ByteCode_END_SECTION 0"

subsection \<open>Faults and the state of a computation\<close>

text \<open>
  What ends a computation early: a thrown \<^verbatim>\<open>std::runtime_error\<close> with its message, a
  failing \<^verbatim>\<open>assert\<close> (assertions are compiled in), and undefined behaviour of C++: an
  access outside an array, a pointer moved outside its array, an integer division by
  zero or with overflow.
\<close>

datatype fault =
    runtime_error string
  | assertion_failure
  | undefined_behaviour

text \<open>
  A computation on a state \<open>'s\<close> returns a value or a fault, and the state it leaves
  behind in both cases: what was written before a \<^verbatim>\<open>throw\<close> stays written.
\<close>

type_synonym ('a, 's) comp = "'s \<Rightarrow> (fault + 'a) \<times> 's"

definition return :: "'a \<Rightarrow> ('a, 's) comp" where
  "return x s = (Inr x, s)"

definition throw :: "fault \<Rightarrow> ('a, 's) comp" where
  "throw e s = (Inl e, s)"

definition bind :: "('a, 's) comp \<Rightarrow> ('a \<Rightarrow> ('b, 's) comp) \<Rightarrow> ('b, 's) comp" where
  "bind m f s = (case m s of (Inl e, s') \<Rightarrow> (Inl e, s') | (Inr x, s') \<Rightarrow> f x s')"

text \<open>\<^verbatim>\<open>std::vector::operator[]\<close> and array indexing: outside the bounds the behaviour
  is undefined.\<close>

definition vector_at :: "'a list \<Rightarrow> nat \<Rightarrow> fault + 'a" where
  "vector_at xs i = (if i < length xs then Inr (xs ! i) else Inl undefined_behaviour)"

text \<open>The conversion of a \<^verbatim>\<open>Parameter\<close> to \<^verbatim>\<open>std::size_t\<close>: sign extension to 64
  bits, read as unsigned.\<close>

definition size_t_of_Parameter :: "Parameter \<Rightarrow> nat" where
  "size_t_of_Parameter p = unat (scast p :: 64 word)"

text \<open>\<^verbatim>\<open>operator<<\<close> of a stream on a \<^verbatim>\<open>std::size_t\<close>: the decimal digits.\<close>

fun decimal :: "nat \<Rightarrow> string" where
  "decimal n =
     (if n < 10 then [char_of (48 + n)]
      else decimal (n div 10) @ [char_of (48 + n mod 10)])"

subsection \<open>Configuration, functions, module and virtual machine\<close>

text \<open>\<^verbatim>\<open>struct Config\<close> (\<^verbatim>\<open>interpreter.hpp\<close>, lines 20-28).\<close>

record Config =
  maxInlineDepth :: nat
  jit :: bool
  directCall :: bool
  passParam :: bool
  lazyVmState :: bool
  debug :: bool
  verbose :: bool

text \<open>
  Modelled from the spec: \<^verbatim>\<open>FunctionSpec\<close> and \<^verbatim>\<open>Module\<close> are declared in
  \<^verbatim>\<open>b9/module.hpp\<close>, which is not among the sources. A FunctionSpec is a name, the
  argument count \<^verbatim>\<open>nargs\<close>, the local-register count \<^verbatim>\<open>nregs\<close> and the bytecode
  array (\<^verbatim>\<open>address\<close> in revisions 1 and 2, \<^verbatim>\<open>instructions\<close> in revision 3). A Module
  owns the vector of functions, the vector of strings and the vector of primitive
  bindings, each a callable that consumes the execution context. In revisions 1 and 2
  a string is used through its \<^verbatim>\<open>const char *\<close> only, cast to a stack element, so
  \<open>strings\<close> holds these addresses.
\<close>

record FunctionSpec =
  name :: string
  nargs :: nat
  nregs :: nat
  instructions :: "Instruction list"

record 'ctx Module =
  functions_m :: "FunctionSpec list"
  strings :: "64 word list"
  primitives :: "(unit, 'ctx) comp list"

text \<open>
  \<^verbatim>\<open>class VirtualMachine\<close> (\<^verbatim>\<open>interpreter.hpp\<close>, lines 118-160) without its execution
  context, which is passed beside it. An entry of \<^verbatim>\<open>compiledFunctions_\<close> is a null
  pointer (\<open>None\<close>) or compiled code, a callable of type \<open>'jit\<close>. The names of
  data members are written without their trailing underscore (\<open>cfg\<close> for
  \<^verbatim>\<open>cfg_\<close>); the vector \<^verbatim>\<open>functions\<close> of a module is \<open>functions_m\<close>.
\<close>

record ('ctx, 'jit) VirtualMachine =
  cfg :: Config
  module :: "'ctx Module"
  compiledFunctions :: "'jit option list"

text \<open>\<^verbatim>\<open>VirtualMachine::getJitAddress\<close> (\<^verbatim>\<open>core.cpp\<close>, lines 322-327 and 873-878).\<close>

definition getJitAddress :: "('ctx, 'jit) VirtualMachine \<Rightarrow> nat \<Rightarrow> fault + 'jit option" where
  "getJitAddress vm functionIndex =
     (if functionIndex \<ge> length (compiledFunctions vm) then Inr None
      else vector_at (compiledFunctions vm) functionIndex)"

text \<open>\<^verbatim>\<open>VirtualMachine::getPrimitive\<close> (lines 333-335 and 885-887).\<close>

definition getPrimitive :: "('ctx, 'jit) VirtualMachine \<Rightarrow> nat \<Rightarrow> fault + (unit, 'ctx) comp" where
  "getPrimitive vm index = vector_at (primitives (module vm)) index"

text \<open>\<^verbatim>\<open>VirtualMachine::getFunction\<close> (lines 337-339 and 889-891).\<close>

definition getFunction :: "('ctx, 'jit) VirtualMachine \<Rightarrow> nat \<Rightarrow> fault + FunctionSpec" where
  "getFunction vm index = vector_at (functions_m (module vm)) index"

text \<open>\<^verbatim>\<open>VirtualMachine::getString\<close> (lines 345-347 and 897-899); the index is an
  \<^verbatim>\<open>int\<close>.\<close>

definition getString :: "('ctx, 'jit) VirtualMachine \<Rightarrow> Parameter \<Rightarrow> fault + 64 word" where
  "getString vm index = vector_at (strings (module vm)) (size_t_of_Parameter index)"

text \<open>\<^verbatim>\<open>*instructionPointer\<close>: the pointer is an index into the bytecode array of the
  function.\<close>

definition fetch :: "FunctionSpec \<Rightarrow> int \<Rightarrow> fault + Instruction" where
  "fetch function ip =
     (if 0 \<le> ip \<and> ip < int (length (instructions function))
      then Inr (instructions function ! nat ip) else Inl undefined_behaviour)"

subsection \<open>Revisions 1 and 2: the execution context and its bytecode implementations\<close>

text \<open>\<^verbatim>\<open>using StackElement = std::int64_t\<close> (\<^verbatim>\<open>interpreter.hpp\<close>, line 46).\<close>

type_synonym StackElement = "64 word"

text \<open>
  \<^verbatim>\<open>class ExecutionContext\<close> (\<^verbatim>\<open>interpreter.hpp\<close>, lines 55-116): the array
  \<^verbatim>\<open>StackElement stack_[1000]\<close>, the pointer \<^verbatim>\<open>stackPointer_\<close> into it, held as the index
  of the slot it points to, and \<^verbatim>\<open>programCounter_\<close>, which the interpreter only
  increments, held as a count.
\<close>

record ExecutionContext =
  stack :: "StackElement list"
  stackPointer :: nat
  programCounter :: nat

text \<open>The constructor: \<^verbatim>\<open>stackPointer_(this->stack_)\<close> and
  \<^verbatim>\<open>std::memset(stack_, 0, sizeof(StackElement) * 1000)\<close>.\<close>

definition ExecutionContext_new :: ExecutionContext where
  "ExecutionContext_new = \<lparr>stack = replicate 1000 0, stackPointer = 0, programCounter = 0\<rparr>"

text \<open>Compiled code, \<^verbatim>\<open>typedef StackElement (*JitFunction)(...)\<close>: it is called with the
  arguments the caller passes, and it reads and writes the execution context. In the
  call \<^verbatim>\<open>jitFunction(this, index)\<close> of the stack calling convention the context is the
  state of the computation and the list of arguments holds the function index.\<close>

type_synonym JitFunction = "StackElement list \<Rightarrow> (StackElement, ExecutionContext) comp"

type_synonym VM = "(ExecutionContext, JitFunction) VirtualMachine"

text \<open>\<^verbatim>\<open>void ExecutionContext::push(StackElement value) { *(stackPointer_++) = value; }\<close>\<close>

definition push :: "StackElement \<Rightarrow> (unit, ExecutionContext) comp" where
  "push value ctx =
     (if stackPointer ctx < length (stack ctx)
      then (Inr (), ctx\<lparr>stack := (stack ctx)[stackPointer ctx := value],
                        stackPointer := stackPointer ctx + 1\<rparr>)
      else (Inl undefined_behaviour, ctx))"

text \<open>\<^verbatim>\<open>StackElement ExecutionContext::pop() { return *(--stackPointer_); }\<close>\<close>

definition pop :: "(StackElement, ExecutionContext) comp" where
  "pop ctx =
     (if 0 < stackPointer ctx \<and> stackPointer ctx - 1 < length (stack ctx)
      then (Inr (stack ctx ! (stackPointer ctx - 1)), ctx\<lparr>stackPointer := stackPointer ctx - 1\<rparr>)
      else (Inl undefined_behaviour, ctx))"

text \<open>The read \<^verbatim>\<open>*(stackPointer_ - 1)\<close>.\<close>

definition top_of_stack :: "(StackElement, ExecutionContext) comp" where
  "top_of_stack ctx =
     (if 0 < stackPointer ctx \<and> stackPointer ctx - 1 < length (stack ctx)
      then (Inr (stack ctx ! (stackPointer ctx - 1)), ctx)
      else (Inl undefined_behaviour, ctx))"

text \<open>\<^verbatim>\<open>primitiveCall\<close> (lines 31-34 and 721-724).\<close>

definition primitiveCall :: "VM \<Rightarrow> Parameter \<Rightarrow> (unit, ExecutionContext) comp" where
  "primitiveCall vm value ctx =
     (case getPrimitive vm (size_t_of_Parameter value) of
        Inl e \<Rightarrow> (Inl e, ctx)
      | Inr primitive \<Rightarrow> primitive ctx)"

text \<open>\<^verbatim>\<open>args[offset]\<close>: \<open>args\<close> is the index of the slot the pointer \<^verbatim>\<open>args\<close> points to.\<close>

definition args_index :: "ExecutionContext \<Rightarrow> nat \<Rightarrow> Parameter \<Rightarrow> fault + nat" where
  "args_index ctx args offset =
     (if 0 \<le> int args + sint offset \<and> int args + sint offset < int (length (stack ctx))
      then Inr (nat (int args + sint offset)) else Inl undefined_behaviour)"

text \<open>\<^verbatim>\<open>pushFromVar\<close> (lines 36-38 and 734-736): \<^verbatim>\<open>push(args[offset])\<close>.\<close>

definition pushFromVar :: "nat \<Rightarrow> Parameter \<Rightarrow> (unit, ExecutionContext) comp" where
  "pushFromVar args offset ctx =
     (case args_index ctx args offset of
        Inl e \<Rightarrow> (Inl e, ctx)
      | Inr i \<Rightarrow> push (stack ctx ! i) ctx)"

text \<open>\<^verbatim>\<open>pushIntoVar\<close> (lines 40-42 and 738-740): \<^verbatim>\<open>args[offset] = pop()\<close>.\<close>

definition pushIntoVar :: "nat \<Rightarrow> Parameter \<Rightarrow> (unit, ExecutionContext) comp" where
  "pushIntoVar args offset =
     bind pop (\<lambda>v ctx.
       case args_index ctx args offset of
         Inl e \<Rightarrow> (Inl e, ctx)
       | Inr i \<Rightarrow> (Inr (), ctx\<lparr>stack := (stack ctx)[i := v]\<rparr>))"

text \<open>\<^verbatim>\<open>void ExecutionContext::drop() { pop(); }\<close>\<close>

definition drop_r12 :: "(unit, ExecutionContext) comp" where
  "drop_r12 = bind pop (\<lambda>v. return ())"

text \<open>\<^verbatim>\<open>intPushConstant(Parameter value) { push(value); }\<close>: the 32-bit value is
  converted to 64 bits with its sign.\<close>

definition intPushConstant :: "Parameter \<Rightarrow> (unit, ExecutionContext) comp" where
  "intPushConstant value = push (scast value)"

text \<open>\<^verbatim>\<open>strPushConstant\<close> (lines 48-50 and 814-816).\<close>

definition strPushConstant :: "VM \<Rightarrow> Parameter \<Rightarrow> (unit, ExecutionContext) comp" where
  "strPushConstant vm value ctx =
     (case getString vm value of
        Inl e \<Rightarrow> (Inl e, ctx)
      | Inr s \<Rightarrow> push s ctx)"

text \<open>\<^verbatim>\<open>intJmpEq\<close> ... \<^verbatim>\<open>intJmpLe\<close> (lines 52-104 and 760-812): \<^verbatim>\<open>right = pop()\<close>,
  \<^verbatim>\<open>left = pop()\<close>, then \<^verbatim>\<open>delta\<close> if the signed comparison holds and 0 otherwise.\<close>

definition intJmpEq :: "Parameter \<Rightarrow> (Parameter, ExecutionContext) comp" where
  "intJmpEq delta =
     bind pop (\<lambda>right. bind pop (\<lambda>left.
       if left = right then return delta else return 0))"

definition intJmpNeq :: "Parameter \<Rightarrow> (Parameter, ExecutionContext) comp" where
  "intJmpNeq delta =
     bind pop (\<lambda>right. bind pop (\<lambda>left.
       if left \<noteq> right then return delta else return 0))"

definition intJmpGt :: "Parameter \<Rightarrow> (Parameter, ExecutionContext) comp" where
  "intJmpGt delta =
     bind pop (\<lambda>right. bind pop (\<lambda>left.
       if sint left > sint right then return delta else return 0))"

definition intJmpGe :: "Parameter \<Rightarrow> (Parameter, ExecutionContext) comp" where
  "intJmpGe delta =
     bind pop (\<lambda>right. bind pop (\<lambda>left.
       if sint left \<ge> sint right then return delta else return 0))"

definition intJmpLt :: "Parameter \<Rightarrow> (Parameter, ExecutionContext) comp" where
  "intJmpLt delta =
     bind pop (\<lambda>right. bind pop (\<lambda>left.
       if sint left < sint right then return delta else return 0))"

definition intJmpLe :: "Parameter \<Rightarrow> (Parameter, ExecutionContext) comp" where
  "intJmpLe delta =
     bind pop (\<lambda>right. bind pop (\<lambda>left.
       if sint left \<le> sint right then return delta else return 0))"

text \<open>\<^verbatim>\<open>intAdd\<close> and \<^verbatim>\<open>intSub\<close> (lines 106-119 and 742-754), on 64 bits with
  wrap-around.\<close>

definition intAdd :: "(unit, ExecutionContext) comp" where
  "intAdd = bind pop (\<lambda>right. bind pop (\<lambda>left. push (left + right)))"

definition intSub :: "(unit, ExecutionContext) comp" where
  "intSub = bind pop (\<lambda>right. bind pop (\<lambda>left. push (left - right)))"

text \<open>\<^verbatim>\<open>ExecutionContext::reset\<close> (lines 377-380 and 828-831).\<close>

definition reset :: "ExecutionContext \<Rightarrow> ExecutionContext" where
  "reset ctx = ctx\<lparr>stackPointer := 0, programCounter := 0\<rparr>"

text \<open>
  Popping the parameters of a call to compiled code: case \<open>n\<close> of the \<^verbatim>\<open>switch\<close> on the
  argument count pops \<^verbatim>\<open>pn\<close>, ..., \<^verbatim>\<open>p1\<close> in this order and passes \<^verbatim>\<open>(p1, ..., pn)\<close>.
\<close>

fun popParams :: "('a, 's) comp \<Rightarrow> nat \<Rightarrow> ('a list, 's) comp" where
  "popParams pop_one 0 = return []"
| "popParams pop_one (Suc n) =
     bind pop_one (\<lambda>p. bind (popParams pop_one n) (\<lambda>ps. return (ps @ [p])))"

text \<open>
  Modelled from the spec: the header of revisions 1 and 2 that declares the bytecode
  names \<^verbatim>\<open>INT_ADD\<close>, \<^verbatim>\<open>INT_SUB\<close>, \<^verbatim>\<open>INT_JMP_EQ\<close>, ..., \<^verbatim>\<open>STR_JMP_EQ\<close>,
  \<^verbatim>\<open>STR_JMP_NEQ\<close>, the constant \<^verbatim>\<open>NO_MORE_BYTECODES\<close> and, for revision 1,
  \<^verbatim>\<open>Instructions::getByteCode\<close> and \<^verbatim>\<open>Instructions::getParameter\<close> is not among the
  sources. The spec fixes the numbers of the opcodes (section 6) and says that the
  mnemonics \<^verbatim>\<open>INT_JMP_*\<close> and \<^verbatim>\<open>JMP_EQ_*\<close> of the two interpreter revisions name the
  same numbers; the table \<^verbatim>\<open>OperatorCode\<close> of the bytecode compiler gives 23 to
  \<^verbatim>\<open>STR_JMP_NEQ\<close>, and 22 is the number left for \<^verbatim>\<open>STR_JMP_EQ\<close>. The decoding is the
  one of \<^verbatim>\<open>class Instruction\<close>, and \<^verbatim>\<open>NO_MORE_BYTECODES\<close> is the sentinel
  \<^verbatim>\<open>END_SECTION\<close>.
\<close>

definition ByteCode_INT_ADD :: ByteCode where "ByteCode_INT_ADD = ByteCode_ADD"
definition ByteCode_INT_SUB :: ByteCode where "ByteCode_INT_SUB = ByteCode_SUB"
definition ByteCode_INT_JMP_EQ :: ByteCode where "ByteCode_INT_JMP_EQ = ByteCode_JMP_EQ_EQ"
definition ByteCode_INT_JMP_NEQ :: ByteCode where "ByteCode_INT_JMP_NEQ = ByteCode_JMP_EQ_NEQ"
definition ByteCode_INT_JMP_GT :: ByteCode where "ByteCode_INT_JMP_GT = ByteCode_JMP_EQ_GT"
definition ByteCode_INT_JMP_GE :: ByteCode where "ByteCode_INT_JMP_GE = ByteCode_JMP_EQ_GE"
definition ByteCode_INT_JMP_LT :: ByteCode where "ByteCode_INT_JMP_LT = ByteCode_JMP_EQ_LT"
definition ByteCode_INT_JMP_LE :: ByteCode where "ByteCode_INT_JMP_LE = ByteCode_JMP_EQ_LE"
definition ByteCode_STR_JMP_EQ :: ByteCode where "ByteCode_STR_JMP_EQ = 0x16"
definition ByteCode_STR_JMP_NEQ :: ByteCode where "ByteCode_STR_JMP_NEQ = 0x17"
definition NO_MORE_BYTECODES :: Instruction where "NO_MORE_BYTECODES = END_SECTION"

subsection \<open>Revision 1: \<^verbatim>\<open>interpret\<close> and \<^verbatim>\<open>run\<close> (\<^verbatim>\<open>core.cpp\<close>, lines 183-320 and 387-422)\<close>

text \<open>
  The branch \<^verbatim>\<open>if (address) { ... return result; }\<close> of \<^verbatim>\<open>interpret\<close> (lines 188-238).
  Under \<^verbatim>\<open>cfg_.passParam\<close> the cases 0 to 3 pop the parameters and call the compiled
  code; the \<^verbatim>\<open>default\<close> case prints a message and leaves \<^verbatim>\<open>result\<close> at 0. Otherwise
  the compiled code is called with the context and the function index.
\<close>

definition interpret_jit_r1 :: "VM \<Rightarrow> nat \<Rightarrow> nat \<Rightarrow> JitFunction \<Rightarrow> (StackElement, ExecutionContext) comp" where
  "interpret_jit_r1 vm functionIndex argsCount address =
     (if passParam (cfg vm) then
        (if argsCount \<le> 3 then bind (popParams pop argsCount) (\<lambda>ps. address ps)
         else return 0)
      else address [of_nat functionIndex])"

text \<open>
  The \<^verbatim>\<open>switch\<close> of \<^verbatim>\<open>interpret\<close> (lines 250-315) without the cases
  \<^verbatim>\<open>FUNCTION_CALL\<close> and \<^verbatim>\<open>FUNCTION_RETURN\<close>, which are in \<open>interpret_loop_r1\<close> below. The
  result is what the case adds to \<^verbatim>\<open>instructionPointer\<close> (0 but for the jumps).
\<close>

definition interpret_switch_r1 :: "VM \<Rightarrow> nat \<Rightarrow> Instruction \<Rightarrow> (Parameter, ExecutionContext) comp" where
  "interpret_switch_r1 vm args instr =
     (if byteCode instr = ByteCode_INT_PUSH_CONSTANT then
        bind (intPushConstant (parameter instr)) (\<lambda>u. return 0)
      else if byteCode instr = ByteCode_STR_PUSH_CONSTANT then
        bind (strPushConstant vm (parameter instr)) (\<lambda>u. return 0)
      else if byteCode instr = ByteCode_DROP then
        bind drop_r12 (\<lambda>u. return 0)
      else if byteCode instr = ByteCode_INT_ADD then
        bind intAdd (\<lambda>u. return 0)
      else if byteCode instr = ByteCode_INT_SUB then
        bind intSub (\<lambda>u. return 0)
      else if byteCode instr = ByteCode_JMP then
        return (parameter instr)
      else if byteCode instr = ByteCode_INT_JMP_EQ then intJmpEq (parameter instr)
      else if byteCode instr = ByteCode_INT_JMP_NEQ then intJmpNeq (parameter instr)
      else if byteCode instr = ByteCode_INT_JMP_GT then intJmpGt (parameter instr)
      else if byteCode instr = ByteCode_INT_JMP_GE then intJmpGe (parameter instr)
      else if byteCode instr = ByteCode_INT_JMP_LT then intJmpLt (parameter instr)
      else if byteCode instr = ByteCode_INT_JMP_LE then intJmpLe (parameter instr)
      else if byteCode instr = ByteCode_PUSH_FROM_VAR then
        bind (pushFromVar args (parameter instr)) (\<lambda>u. return 0)
      else if byteCode instr = ByteCode_POP_INTO_VAR then
        bind (pushIntoVar args (parameter instr)) (\<lambda>u. return 0)
      else if byteCode instr = ByteCode_PRIMITIVE_CALL then
        bind (primitiveCall vm (parameter instr)) (\<lambda>u. return 0)
      else throw assertion_failure)"

text \<open>
  \<^verbatim>\<open>ExecutionContext::interpret\<close> (lines 183-320) and its \<^verbatim>\<open>while\<close> loop. The first
  argument bounds the number of calls and loop iterations; \<open>None\<close> says that the bound
  was reached. \<open>args\<close> is the index of the slot \<^verbatim>\<open>args\<close> points to and \<open>ip\<close> the index
  of the instruction \<^verbatim>\<open>instructionPointer\<close> points to. The statements
  \<^verbatim>\<open>args = stackPointer_ - function->nargs\<close> and \<^verbatim>\<open>stackPointer_ += function->nregs\<close> have
  undefined behaviour when they move a pointer below the base of the stack or beyond
  its end. \<open>functionCall\<close> is \<^verbatim>\<open>ExecutionContext::functionCall\<close> (lines 25-29), which
  calls \<^verbatim>\<open>interpret\<close> and pushes the result.
\<close>

fun interpret_r1 ::
    "nat \<Rightarrow> VM \<Rightarrow> nat \<Rightarrow> ExecutionContext \<Rightarrow> ((fault + StackElement) \<times> ExecutionContext) option"
  and interpret_loop_r1 ::
    "nat \<Rightarrow> VM \<Rightarrow> FunctionSpec \<Rightarrow> nat \<Rightarrow> int \<Rightarrow> ExecutionContext
       \<Rightarrow> ((fault + StackElement) \<times> ExecutionContext) option"
  and functionCall ::
    "nat \<Rightarrow> VM \<Rightarrow> Parameter \<Rightarrow> ExecutionContext \<Rightarrow> ((fault + unit) \<times> ExecutionContext) option"
where
  "functionCall fuel vm value ctx =
     (case getFunction vm (size_t_of_Parameter value) of
        Inl e \<Rightarrow> Some (Inl e, ctx)
      | Inr f \<Rightarrow>
          (case interpret_r1 fuel vm (size_t_of_Parameter value) ctx of
             None \<Rightarrow> None
           | Some (Inl e, ctx1) \<Rightarrow> Some (Inl e, ctx1)
           | Some (Inr result, ctx1) \<Rightarrow> Some (push result ctx1)))"
| "interpret_r1 0 vm functionIndex ctx = None"
| "interpret_r1 (Suc fuel) vm functionIndex ctx =
     (case getFunction vm functionIndex of
        Inl e \<Rightarrow> Some (Inl e, ctx)
      | Inr function \<Rightarrow>
          (case getJitAddress vm functionIndex of
             Inl e \<Rightarrow> Some (Inl e, ctx)
           | Inr (Some address) \<Rightarrow>
               Some (interpret_jit_r1 vm functionIndex (nargs function) address ctx)
           | Inr None \<Rightarrow>
               if nargs function \<le> stackPointer ctx
                  \<and> stackPointer ctx + nregs function \<le> length (stack ctx)
               then interpret_loop_r1 fuel vm function (stackPointer ctx - nargs function) 0
                      (ctx\<lparr>stackPointer := stackPointer ctx + nregs function\<rparr>)
               else Some (Inl undefined_behaviour, ctx)))"
| "interpret_loop_r1 0 vm function args ip ctx = None"
| "interpret_loop_r1 (Suc fuel) vm function args ip ctx =
     (case fetch function ip of
        Inl e \<Rightarrow> Some (Inl e, ctx)
      | Inr instr \<Rightarrow>
          if instr = NO_MORE_BYTECODES then Some (top_of_stack ctx)
          else if byteCode instr = ByteCode_FUNCTION_CALL then
            (case functionCall fuel vm (parameter instr) ctx of
               None \<Rightarrow> None
             | Some (Inl e, ctx1) \<Rightarrow> Some (Inl e, ctx1)
             | Some (Inr u, ctx1) \<Rightarrow>
                 interpret_loop_r1 fuel vm function args (ip + 1)
                   (ctx1\<lparr>programCounter := programCounter ctx1 + 1\<rparr>))
          else if byteCode instr = ByteCode_FUNCTION_RETURN then
            Some (bind top_of_stack (\<lambda>result ctx1. (Inr result, ctx1\<lparr>stackPointer := args\<rparr>)) ctx)
          else
            (case interpret_switch_r1 vm args instr ctx of
               (Inl e, ctx1) \<Rightarrow> Some (Inl e, ctx1)
             | (Inr delta, ctx1) \<Rightarrow>
                 interpret_loop_r1 fuel vm function args (ip + sint delta + 1)
                   (ctx1\<lparr>programCounter := programCounter ctx1 + 1\<rparr>)))"

text \<open>
  What \<^verbatim>\<open>VirtualMachine::run\<close> ends with: the exception
  \<^verbatim>\<open>BadFunctionCallException\<close> (\<^verbatim>\<open>interpreter.hpp\<close>, lines 42-44), which only \<^verbatim>\<open>run\<close>
  throws, or a fault of the execution context, which \<^verbatim>\<open>run\<close> does not catch.
\<close>

datatype exception =
    BadFunctionCallException string
  | Fault fault

text \<open>The message of the exception: \<^verbatim>\<open>ss << function->name << " - Got " <<
  usrArgs.size() << " arguments, expected " << argsCount\<close>.\<close>

definition BadFunctionCall_message :: "FunctionSpec \<Rightarrow> nat \<Rightarrow> string" where
  "BadFunctionCall_message function got =
     name function @ '' - Got '' @ decimal got @ '' arguments, expected ''
       @ decimal (nargs function)"

text \<open>The loop that pushes the arguments: for \<open>i = 0, ..., argsCount - 1\<close> it pushes
  \<^verbatim>\<open>usrArgs[argsCount - i - 1]\<close>. The last argument of \<open>push_usrArgs\<close> is the number of
  iterations left, \<open>argsCount - i\<close>.\<close>

fun push_usrArgs :: "StackElement list \<Rightarrow> nat \<Rightarrow> nat \<Rightarrow> (unit, ExecutionContext) comp" where
  "push_usrArgs usrArgs argsCount 0 = return ()"
| "push_usrArgs usrArgs argsCount (Suc k) =
     (\<lambda>ctx.
        let i = argsCount - Suc k; idx = argsCount - i - 1
        in case vector_at usrArgs idx of
             Inl e \<Rightarrow> (Inl e, ctx)
           | Inr arg \<Rightarrow> bind (push arg) (\<lambda>u. push_usrArgs usrArgs argsCount k) ctx)"

text \<open>\<^verbatim>\<open>VirtualMachine::run\<close> of revision 1 (lines 387-422): after the arguments are
  pushed, \<^verbatim>\<open>reset\<close> is called before \<^verbatim>\<open>interpret\<close> and after it.\<close>

definition run_r1 ::
  "nat \<Rightarrow> VM \<Rightarrow> nat \<Rightarrow> StackElement list \<Rightarrow> ExecutionContext
     \<Rightarrow> ((exception + StackElement) \<times> ExecutionContext) option" where
  "run_r1 fuel vm functionIndex usrArgs ctx =
     (case getFunction vm functionIndex of
        Inl e \<Rightarrow> Some (Inl (Fault e), ctx)
      | Inr function \<Rightarrow>
          if nargs function \<noteq> length usrArgs
          then Some (Inl (BadFunctionCallException
                       (BadFunctionCall_message function (length usrArgs))), ctx)
          else
            (case push_usrArgs usrArgs (nargs function) (nargs function) ctx of
               (Inl e, ctx1) \<Rightarrow> Some (Inl (Fault e), ctx1)
             | (Inr u, ctx1) \<Rightarrow>
                 (case interpret_r1 fuel vm functionIndex (reset ctx1) of
                    None \<Rightarrow> None
                  | Some (Inl e, ctx2) \<Rightarrow> Some (Inl (Fault e), ctx2)
                  | Some (Inr result, ctx2) \<Rightarrow> Some (Inr result, reset ctx2))))"

subsection \<open>Revision 2: the bridge, \<^verbatim>\<open>interpretFunction\<close> and \<^verbatim>\<open>run\<close> (lines 517-711 and 924-955)\<close>

text \<open>
  \<^verbatim>\<open>callJitFunctionWithPassParam\<close> (lines 637-711): the cases 0 to 7 of the \<^verbatim>\<open>switch\<close>
  on \<^verbatim>\<open>function->nargs\<close> pop the parameters and call the compiled code with them; the
  \<^verbatim>\<open>default\<close> case throws.
\<close>

definition callJitFunctionWithPassParam :: "VM \<Rightarrow> nat \<Rightarrow> (StackElement, ExecutionContext) comp" where
  "callJitFunctionWithPassParam vm index ctx =
     (if \<not> passParam (cfg vm) then (Inl assertion_failure, ctx)
      else case getFunction vm index of
        Inl e \<Rightarrow> (Inl e, ctx)
      | Inr function \<Rightarrow>
          (case getJitAddress vm index of
             Inl e \<Rightarrow> (Inl e, ctx)
           | Inr None \<Rightarrow> (Inl assertion_failure, ctx)
           | Inr (Some jitFunction) \<Rightarrow>
               if nargs function \<le> 7
               then bind (popParams pop (nargs function)) (\<lambda>ps. jitFunction ps) ctx
               else (Inl (runtime_error
                       ''Interpreter to JIT transition failed: too many arguments''), ctx)))"

text \<open>\<^verbatim>\<open>callJitFunction\<close> of revision 2 (lines 620-635).\<close>

definition callJitFunction_r2 :: "VM \<Rightarrow> nat \<Rightarrow> (StackElement, ExecutionContext) comp" where
  "callJitFunction_r2 vm index ctx =
     (if \<not> jit (cfg vm) then (Inl assertion_failure, ctx)
      else if passParam (cfg vm) then callJitFunctionWithPassParam vm index ctx
      else case getJitAddress vm index of
        Inl e \<Rightarrow> (Inl e, ctx)
      | Inr None \<Rightarrow> (Inl assertion_failure, ctx)
      | Inr (Some jitFunction) \<Rightarrow> jitFunction [of_nat index] ctx)"

text \<open>
  The \<^verbatim>\<open>switch\<close> of \<^verbatim>\<open>interpretFunction\<close> (lines 541-613) without the cases
  \<^verbatim>\<open>FUNCTION_CALL\<close> and \<^verbatim>\<open>FUNCTION_RETURN\<close>, which are in \<open>interpretFunction_loop\<close>
  below. The cases \<^verbatim>\<open>DUPLICATE\<close>, \<^verbatim>\<open>STR_JMP_EQ\<close> and \<^verbatim>\<open>STR_JMP_NEQ\<close> hold the comment
  \<^verbatim>\<open>// TODO\<close> and a \<^verbatim>\<open>break\<close>.
\<close>

definition interpretFunction_switch :: "VM \<Rightarrow> nat \<Rightarrow> Instruction \<Rightarrow> (Parameter, ExecutionContext) comp" where
  "interpretFunction_switch vm args instr =
     (if byteCode instr = ByteCode_PRIMITIVE_CALL then
        bind (primitiveCall vm (parameter instr)) (\<lambda>u. return 0)
      else if byteCode instr = ByteCode_JMP then
        return (parameter instr)
      else if byteCode instr = ByteCode_DUPLICATE then
        return 0
      else if byteCode instr = ByteCode_DROP then
        bind drop_r12 (\<lambda>u. return 0)
      else if byteCode instr = ByteCode_PUSH_FROM_VAR then
        bind (pushFromVar args (parameter instr)) (\<lambda>u. return 0)
      else if byteCode instr = ByteCode_POP_INTO_VAR then
        bind (pushIntoVar args (parameter instr)) (\<lambda>u. return 0)
      else if byteCode instr = ByteCode_INT_ADD then
        bind intAdd (\<lambda>u. return 0)
      else if byteCode instr = ByteCode_INT_SUB then
        bind intSub (\<lambda>u. return 0)
      else if byteCode instr = ByteCode_INT_PUSH_CONSTANT then
        bind (intPushConstant (parameter instr)) (\<lambda>u. return 0)
      else if byteCode instr = ByteCode_INT_JMP_EQ then intJmpEq (parameter instr)
      else if byteCode instr = ByteCode_INT_JMP_NEQ then intJmpNeq (parameter instr)
      else if byteCode instr = ByteCode_INT_JMP_GT then intJmpGt (parameter instr)
      else if byteCode instr = ByteCode_INT_JMP_GE then intJmpGe (parameter instr)
      else if byteCode instr = ByteCode_INT_JMP_LT then intJmpLt (parameter instr)
      else if byteCode instr = ByteCode_INT_JMP_LE then intJmpLe (parameter instr)
      else if byteCode instr = ByteCode_STR_PUSH_CONSTANT then
        bind (strPushConstant vm (parameter instr)) (\<lambda>u. return 0)
      else if byteCode instr = ByteCode_STR_JMP_EQ then
        return 0
      else if byteCode instr = ByteCode_STR_JMP_NEQ then
        return 0
      else throw assertion_failure)"

text \<open>
  \<^verbatim>\<open>callFunction\<close> (lines 517-528), \<^verbatim>\<open>interpretFunction\<close> (lines 530-618) and its
  \<^verbatim>\<open>while\<close> loop. The first argument bounds the number of loop iterations and of
  interpreted calls; \<open>None\<close> says that the bound was reached.
\<close>

fun callFunction ::
    "nat \<Rightarrow> VM \<Rightarrow> nat \<Rightarrow> ExecutionContext \<Rightarrow> ((fault + StackElement) \<times> ExecutionContext) option"
  and interpretFunction ::
    "nat \<Rightarrow> VM \<Rightarrow> nat \<Rightarrow> ExecutionContext \<Rightarrow> ((fault + StackElement) \<times> ExecutionContext) option"
  and interpretFunction_loop ::
    "nat \<Rightarrow> VM \<Rightarrow> FunctionSpec \<Rightarrow> nat \<Rightarrow> int \<Rightarrow> ExecutionContext
       \<Rightarrow> ((fault + StackElement) \<times> ExecutionContext) option"
where
  "callFunction fuel vm index ctx =
     (case getJitAddress vm index of
        Inl e \<Rightarrow> Some (Inl e, ctx)
      | Inr (Some jitFunction) \<Rightarrow> Some (callJitFunction_r2 vm index ctx)
      | Inr None \<Rightarrow> interpretFunction fuel vm index ctx)"
| "interpretFunction 0 vm index ctx = None"
| "interpretFunction (Suc fuel) vm index ctx =
     (case getFunction vm index of
        Inl e \<Rightarrow> Some (Inl e, ctx)
      | Inr function \<Rightarrow>
          if nargs function \<le> stackPointer ctx
             \<and> stackPointer ctx + nregs function \<le> length (stack ctx)
          then interpretFunction_loop fuel vm function (stackPointer ctx - nargs function) 0
                 (ctx\<lparr>stackPointer := stackPointer ctx + nregs function\<rparr>)
          else Some (Inl undefined_behaviour, ctx))"
| "interpretFunction_loop 0 vm function args ip ctx = None"
| "interpretFunction_loop (Suc fuel) vm function args ip ctx =
     (case fetch function ip of
        Inl e \<Rightarrow> Some (Inl e, ctx)
      | Inr instr \<Rightarrow>
          if instr = END_SECTION then Some (top_of_stack ctx)
          else if byteCode instr = ByteCode_FUNCTION_CALL then
            (case callFunction fuel vm (size_t_of_Parameter (parameter instr)) ctx of
               None \<Rightarrow> None
             | Some (Inl e, ctx1) \<Rightarrow> Some (Inl e, ctx1)
             | Some (Inr result, ctx1) \<Rightarrow>
                 (case push result ctx1 of
                    (Inl e, ctx2) \<Rightarrow> Some (Inl e, ctx2)
                  | (Inr u, ctx2) \<Rightarrow>
                      interpretFunction_loop fuel vm function args (ip + 1)
                        (ctx2\<lparr>programCounter := programCounter ctx2 + 1\<rparr>)))
          else if byteCode instr = ByteCode_FUNCTION_RETURN then
            Some (bind top_of_stack (\<lambda>result ctx1. (Inr result, ctx1\<lparr>stackPointer := args\<rparr>)) ctx)
          else
            (case interpretFunction_switch vm args instr ctx of
               (Inl e, ctx1) \<Rightarrow> Some (Inl e, ctx1)
             | (Inr delta, ctx1) \<Rightarrow>
                 interpretFunction_loop fuel vm function args (ip + sint delta + 1)
                   (ctx1\<lparr>programCounter := programCounter ctx1 + 1\<rparr>)))"

text \<open>\<^verbatim>\<open>VirtualMachine::run\<close> of revision 2 (lines 924-955).\<close>

definition run_r2 ::
  "nat \<Rightarrow> VM \<Rightarrow> nat \<Rightarrow> StackElement list \<Rightarrow> ExecutionContext
     \<Rightarrow> ((exception + StackElement) \<times> ExecutionContext) option" where
  "run_r2 fuel vm functionIndex usrArgs ctx =
     (case getFunction vm functionIndex of
        Inl e \<Rightarrow> Some (Inl (Fault e), ctx)
      | Inr function \<Rightarrow>
          if nargs function \<noteq> length usrArgs
          then Some (Inl (BadFunctionCallException
                       (BadFunctionCall_message function (length usrArgs))), ctx)
          else
            (case push_usrArgs usrArgs (nargs function) (nargs function) ctx of
               (Inl e, ctx1) \<Rightarrow> Some (Inl (Fault e), ctx1)
             | (Inr u, ctx1) \<Rightarrow>
                 (case callFunction fuel vm functionIndex ctx1 of
                    None \<Rightarrow> None
                  | Some (Inl e, ctx2) \<Rightarrow> Some (Inl (Fault e), ctx2)
                  | Some (Inr result, ctx2) \<Rightarrow> Some (Inr result, reset ctx2))))"

subsection \<open>Revision 3: values, operand stack and objects\<close>

text \<open>
  Modelled from the spec: \<^verbatim>\<open>Om::Value\<close> (\<^verbatim>\<open>OMR/Om/Value.hpp\<close>) is not among the
  sources. A Value is a 64-bit word with a tag that discriminates a signed 48-bit
  integer, an object reference, a boxed double and the singletons undefined, false
  and true. Operations branch on the tag, and an unexpected tag is a runtime fault.
  The raw representation of a Value (\<^verbatim>\<open>raw()\<close>, \<^verbatim>\<open>Value(Om::FROM_RAW, _)\<close>) is the
  Value itself. An object reference is the index of the object in the heap.
\<close>

datatype Value =
    Value_Integer "48 word"
  | Value_Ptr nat
  | Value_Double "64 word"
  | Value_Undefined
  | Value_False
  | Value_True

definition getInteger :: "Value \<Rightarrow> fault + 48 word" where
  "getInteger v =
     (case v of
        Value_Integer i \<Rightarrow> Inr i
      | _ \<Rightarrow> Inl (runtime_error ''Value is not an integer''))"

definition setInteger :: "48 word \<Rightarrow> Value" where
  "setInteger i = Value_Integer i"

definition isPtr :: "Value \<Rightarrow> bool" where
  "isPtr v = (case v of Value_Ptr r \<Rightarrow> True | _ \<Rightarrow> False)"

definition getPtr :: "Value \<Rightarrow> fault + nat" where
  "getPtr v =
     (case v of
        Value_Ptr r \<Rightarrow> Inr r
      | _ \<Rightarrow> Inl (runtime_error ''Value is not a pointer''))"

text \<open>
  Modelled from the spec: \<^verbatim>\<open>Om::Object\<close> and its maps are not among the sources. An
  object carries one Value slot for each slot of its map, in the order in which the
  slots were added; a lookup gives the descriptor of the slot with the given id, here
  its offset; a transition appends a slot; there is no deletion of slots.
\<close>

type_synonym Id = Parameter

type_synonym Object = "(Id \<times> Value) list"

fun Object_lookup :: "Object \<Rightarrow> Id \<Rightarrow> nat option" where
  "Object_lookup [] slotId = None"
| "Object_lookup (slot # slots) slotId =
     (if fst slot = slotId then Some 0 else map_option Suc (Object_lookup slots slotId))"

definition Object_getValue :: "Object \<Rightarrow> nat \<Rightarrow> Value" where
  "Object_getValue object descriptor = snd (object ! descriptor)"

definition Object_setValue :: "Object \<Rightarrow> nat \<Rightarrow> Value \<Rightarrow> Object" where
  "Object_setValue object descriptor val = object[descriptor := (fst (object ! descriptor), val)]"

definition Object_transition :: "Object \<Rightarrow> Id \<Rightarrow> Object" where
  "Object_transition object slotId = object @ [(slotId, Value_Undefined)]"

text \<open>
  Modelled from the spec: the operand stack of revision 3 (the type of \<^verbatim>\<open>stack_\<close>) is
  not among the sources. It is a fixed-capacity array of Values with a stack pointer
  and the operations \<^verbatim>\<open>push\<close>, \<^verbatim>\<open>pop\<close>, \<^verbatim>\<open>peek\<close>, \<^verbatim>\<open>pushn\<close>, which reserves
  zero-filled slots, \<^verbatim>\<open>restore\<close>, which resets to a saved pointer, \<^verbatim>\<open>top\<close> and
  \<^verbatim>\<open>reset\<close>. Overflow and underflow are programming errors that fail an assertion.
\<close>

record OperandStack =
  slots :: "Value list"
  top_slot :: nat

text \<open>The execution context of revision 3: the operand stack \<^verbatim>\<open>stack_\<close>,
  \<^verbatim>\<open>programCounter_\<close> and the heap of objects behind \<^verbatim>\<open>omContext_\<close>.\<close>

record ExecutionContext_r3 =
  stack_r3 :: OperandStack
  programCounter_r3 :: nat
  heap :: "Object list"

type_synonym JitFunction_r3 = "Value list \<Rightarrow> (Value, ExecutionContext_r3) comp"

type_synonym VM_r3 = "(ExecutionContext_r3, JitFunction_r3) VirtualMachine"

definition ExecutionContext_r3_new :: ExecutionContext_r3 where
  "ExecutionContext_r3_new =
     \<lparr>stack_r3 = \<lparr>slots = replicate 1000 (Value_Integer 0), top_slot = 0\<rparr>,
      programCounter_r3 = 0, heap = []\<rparr>"

definition stack_top :: "ExecutionContext_r3 \<Rightarrow> nat" where
  "stack_top ctx = top_slot (stack_r3 ctx)"

definition stack_push :: "Value \<Rightarrow> (unit, ExecutionContext_r3) comp" where
  "stack_push v ctx =
     (if stack_top ctx < length (slots (stack_r3 ctx))
      then (Inr (), ctx\<lparr>stack_r3 := \<lparr>slots = (slots (stack_r3 ctx))[stack_top ctx := v],
                                       top_slot = stack_top ctx + 1\<rparr>\<rparr>)
      else (Inl assertion_failure, ctx))"

definition stack_pop :: "(Value, ExecutionContext_r3) comp" where
  "stack_pop ctx =
     (if 0 < stack_top ctx \<and> stack_top ctx - 1 < length (slots (stack_r3 ctx))
      then (Inr (slots (stack_r3 ctx) ! (stack_top ctx - 1)),
            ctx\<lparr>stack_r3 := \<lparr>slots = slots (stack_r3 ctx), top_slot = stack_top ctx - 1\<rparr>\<rparr>)
      else (Inl assertion_failure, ctx))"

definition stack_peek :: "(Value, ExecutionContext_r3) comp" where
  "stack_peek ctx =
     (if 0 < stack_top ctx \<and> stack_top ctx - 1 < length (slots (stack_r3 ctx))
      then (Inr (slots (stack_r3 ctx) ! (stack_top ctx - 1)), ctx)
      else (Inl assertion_failure, ctx))"

definition stack_pushn :: "nat \<Rightarrow> (unit, ExecutionContext_r3) comp" where
  "stack_pushn n ctx =
     (if stack_top ctx + n \<le> length (slots (stack_r3 ctx))
      then (Inr (), ctx\<lparr>stack_r3 :=
              \<lparr>slots = take (stack_top ctx) (slots (stack_r3 ctx)) @ replicate n (Value_Integer 0)
                         @ drop (stack_top ctx + n) (slots (stack_r3 ctx)),
               top_slot = stack_top ctx + n\<rparr>\<rparr>)
      else (Inl assertion_failure, ctx))"

definition stack_restore :: "nat \<Rightarrow> ExecutionContext_r3 \<Rightarrow> ExecutionContext_r3" where
  "stack_restore p ctx = ctx\<lparr>stack_r3 := \<lparr>slots = slots (stack_r3 ctx), top_slot = p\<rparr>\<rparr>"

definition stack_reset :: "ExecutionContext_r3 \<Rightarrow> ExecutionContext_r3" where
  "stack_reset ctx = ctx\<lparr>stack_r3 := \<lparr>slots = slots (stack_r3 ctx), top_slot = 0\<rparr>\<rparr>"

text \<open>\<^verbatim>\<open>ExecutionContext::reset\<close> of revision 3 (lines 993-996).\<close>

definition reset_r3 :: "ExecutionContext_r3 \<Rightarrow> ExecutionContext_r3" where
  "reset_r3 ctx = (stack_reset ctx)\<lparr>programCounter_r3 := 0\<rparr>"

text \<open>\<^verbatim>\<open>ExecutionContext::push\<close> and \<^verbatim>\<open>pop\<close> of revision 3 (lines 1146-1148).\<close>

definition push_r3 :: "Value \<Rightarrow> (unit, ExecutionContext_r3) comp" where
  "push_r3 value = stack_push value"

definition pop_r3 :: "(Value, ExecutionContext_r3) comp" where
  "pop_r3 = stack_pop"

text \<open>The statement \<^verbatim>\<open>std::int32_t x = stack_.pop().getInteger()\<close>: the integer is
  cut to its low 32 bits.\<close>

definition pop_getInteger :: "(32 word, ExecutionContext_r3) comp" where
  "pop_getInteger =
     bind stack_pop (\<lambda>v ctx.
       case getInteger v of
         Inl e \<Rightarrow> (Inl e, ctx)
       | Inr i \<Rightarrow> (Inr (ucast i), ctx))"

text \<open>\<^verbatim>\<open>setInteger\<close> on a 32-bit signed integer: the conversion keeps the sign.\<close>

definition setInteger_int32 :: "32 word \<Rightarrow> Value" where
  "setInteger_int32 i = setInteger (scast i)"

subsection \<open>Revision 3: bytecode implementations and \<^verbatim>\<open>interpret\<close> (lines 998-1346)\<close>

text \<open>
  \<^verbatim>\<open>callJitFunction\<close> of revision 3 (lines 998-1035): under \<^verbatim>\<open>cfg_->passParam\<close> the
  cases 0 to 3 pop the parameters and call the compiled code with them, and the
  \<^verbatim>\<open>default\<close> case throws; otherwise the compiled code is called with the context only.
\<close>

definition callJitFunction_r3 :: "VM_r3 \<Rightarrow> JitFunction_r3 \<Rightarrow> nat \<Rightarrow> (Value, ExecutionContext_r3) comp" where
  "callJitFunction_r3 vm jitFunction n =
     (if passParam (cfg vm) then
        (if n \<le> 3 then bind (popParams pop_r3 n) (\<lambda>ps. jitFunction ps)
         else throw (runtime_error ''Need to add handlers for more parameters''))
      else jitFunction [])"

text \<open>\<^verbatim>\<open>doPrimitiveCall\<close> (lines 1160-1163).\<close>

definition doPrimitiveCall :: "VM_r3 \<Rightarrow> Parameter \<Rightarrow> (unit, ExecutionContext_r3) comp" where
  "doPrimitiveCall vm value ctx =
     (case getPrimitive vm (size_t_of_Parameter value) of
        Inl e \<Rightarrow> (Inl e, ctx)
      | Inr primitive \<Rightarrow> primitive ctx)"

text \<open>\<^verbatim>\<open>doDuplicate\<close> (lines 1167-1169): \<^verbatim>\<open>push(stack_.peek())\<close>.\<close>

definition doDuplicate :: "(unit, ExecutionContext_r3) comp" where
  "doDuplicate = bind stack_peek (\<lambda>v. push_r3 v)"

text \<open>\<^verbatim>\<open>doDrop\<close> (line 1171).\<close>

definition doDrop :: "(unit, ExecutionContext_r3) comp" where
  "doDrop = bind stack_pop (\<lambda>v. return ())"

text \<open>\<^verbatim>\<open>args[offset]\<close> in revision 3.\<close>

definition args_index_r3 :: "ExecutionContext_r3 \<Rightarrow> nat \<Rightarrow> Parameter \<Rightarrow> fault + nat" where
  "args_index_r3 ctx args offset =
     (if 0 \<le> int args + sint offset
         \<and> int args + sint offset < int (length (slots (stack_r3 ctx)))
      then Inr (nat (int args + sint offset)) else Inl undefined_behaviour)"

text \<open>\<^verbatim>\<open>doPushFromVar\<close> (lines 1173-1175) and \<^verbatim>\<open>doPushIntoVar\<close> (lines 1177-1179).\<close>

definition doPushFromVar :: "nat \<Rightarrow> Parameter \<Rightarrow> (unit, ExecutionContext_r3) comp" where
  "doPushFromVar args offset ctx =
     (case args_index_r3 ctx args offset of
        Inl e \<Rightarrow> (Inl e, ctx)
      | Inr i \<Rightarrow> stack_push (slots (stack_r3 ctx) ! i) ctx)"

definition doPushIntoVar :: "nat \<Rightarrow> Parameter \<Rightarrow> (unit, ExecutionContext_r3) comp" where
  "doPushIntoVar args offset =
     bind stack_pop (\<lambda>v ctx.
       case args_index_r3 ctx args offset of
         Inl e \<Rightarrow> (Inl e, ctx)
       | Inr i \<Rightarrow>
           (Inr (), ctx\<lparr>stack_r3 := \<lparr>slots = (slots (stack_r3 ctx))[i := v],
                                      top_slot = stack_top ctx\<rparr>\<rparr>))"

text \<open>\<^verbatim>\<open>doAdd\<close>, \<^verbatim>\<open>doSub\<close> and \<^verbatim>\<open>doMul\<close> (lines 1181-1203), on 32 bits with
  wrap-around.\<close>

definition doAdd :: "(unit, ExecutionContext_r3) comp" where
  "doAdd =
     bind pop_getInteger (\<lambda>right. bind pop_getInteger (\<lambda>left.
       push_r3 (setInteger_int32 (left + right))))"

definition doSub :: "(unit, ExecutionContext_r3) comp" where
  "doSub =
     bind pop_getInteger (\<lambda>right. bind pop_getInteger (\<lambda>left.
       push_r3 (setInteger_int32 (left - right))))"

definition doMul :: "(unit, ExecutionContext_r3) comp" where
  "doMul =
     bind pop_getInteger (\<lambda>right. bind pop_getInteger (\<lambda>left.
       push_r3 (setInteger_int32 (left * right))))"

text \<open>
  The expression \<^verbatim>\<open>left / right\<close> on \<^verbatim>\<open>std::int32_t\<close>: the quotient truncated towards
  zero; the behaviour is undefined when \<^verbatim>\<open>right\<close> is zero and when the quotient is
  not representable (\<open>- 2 ^ 31\<close> divided by \<open>- 1\<close>).
\<close>

definition int32_divide :: "32 word \<Rightarrow> 32 word \<Rightarrow> fault + 32 word" where
  "int32_divide left right =
     (if right = 0 then Inl undefined_behaviour
      else if sint left = - (2 ^ 31) \<and> sint right = - 1 then Inl undefined_behaviour
      else Inr (word_of_int (sint left sdiv sint right)))"

text \<open>\<^verbatim>\<open>doDiv\<close> (lines 1205-1211): there is no test of \<^verbatim>\<open>right\<close> before the division.\<close>

definition doDiv :: "(unit, ExecutionContext_r3) comp" where
  "doDiv =
     bind pop_getInteger (\<lambda>right. bind pop_getInteger (\<lambda>left ctx.
       case int32_divide left right of
         Inl e \<Rightarrow> (Inl e, ctx)
       | Inr q \<Rightarrow> push_r3 (setInteger_int32 q) ctx))"

text \<open>\<^verbatim>\<open>doIntPushConstant\<close> (lines 1213-1215).\<close>

definition doIntPushConstant :: "Parameter \<Rightarrow> (unit, ExecutionContext_r3) comp" where
  "doIntPushConstant value = stack_push (setInteger_int32 value)"

text \<open>\<^verbatim>\<open>doNot\<close> (lines 1217-1222): \<^verbatim>\<open>v.setInteger(!i)\<close>.\<close>

definition doNot :: "(unit, ExecutionContext_r3) comp" where
  "doNot =
     bind pop_getInteger (\<lambda>i.
       push_r3 (setInteger_int32 (if i = 0 then 1 else 0)))"

text \<open>\<^verbatim>\<open>doJmpEq\<close> ... \<^verbatim>\<open>doJmpLe\<close> (lines 1224-1279).\<close>

definition doJmpEq :: "Parameter \<Rightarrow> (Parameter, ExecutionContext_r3) comp" where
  "doJmpEq delta =
     bind pop_getInteger (\<lambda>right. bind pop_getInteger (\<lambda>left.
       if left = right then return delta else return 0))"

definition doJmpNeq :: "Parameter \<Rightarrow> (Parameter, ExecutionContext_r3) comp" where
  "doJmpNeq delta =
     bind pop_getInteger (\<lambda>right. bind pop_getInteger (\<lambda>left.
       if left \<noteq> right then return delta else return 0))"

definition doJmpGt :: "Parameter \<Rightarrow> (Parameter, ExecutionContext_r3) comp" where
  "doJmpGt delta =
     bind pop_getInteger (\<lambda>right. bind pop_getInteger (\<lambda>left.
       if sint left > sint right then return delta else return 0))"

definition doJmpGe :: "Parameter \<Rightarrow> (Parameter, ExecutionContext_r3) comp" where
  "doJmpGe delta =
     bind pop_getInteger (\<lambda>right. bind pop_getInteger (\<lambda>left.
       if sint left \<ge> sint right then return delta else return 0))"

definition doJmpLt :: "Parameter \<Rightarrow> (Parameter, ExecutionContext_r3) comp" where
  "doJmpLt delta =
     bind pop_getInteger (\<lambda>right. bind pop_getInteger (\<lambda>left.
       if sint left < sint right then return delta else return 0))"

definition doJmpLe :: "Parameter \<Rightarrow> (Parameter, ExecutionContext_r3) comp" where
  "doJmpLe delta =
     bind pop_getInteger (\<lambda>right. bind pop_getInteger (\<lambda>left.
       if sint left \<le> sint right then return delta else return 0))"

text \<open>\<^verbatim>\<open>doStrPushConstant\<close> (lines 1282-1284).\<close>

definition doStrPushConstant :: "Parameter \<Rightarrow> (unit, ExecutionContext_r3) comp" where
  "doStrPushConstant param = stack_push (setInteger_int32 param)"

text \<open>\<^verbatim>\<open>doNewObject\<close> (lines 1287-1290).\<close>

definition doNewObject :: "(unit, ExecutionContext_r3) comp" where
  "doNewObject ctx = stack_push (Value_Ptr (length (heap ctx))) (ctx\<lparr>heap := heap ctx @ [[]]\<rparr>)"

text \<open>\<^verbatim>\<open>doPushFromObject\<close> (lines 1293-1308).\<close>

definition doPushFromObject :: "Id \<Rightarrow> (unit, ExecutionContext_r3) comp" where
  "doPushFromObject slotId =
     bind stack_pop (\<lambda>value ctx.
       if \<not> isPtr value
       then (Inl (runtime_error ''Accessing non-object value as an object.''), ctx)
       else case getPtr value of
         Inl e \<Rightarrow> (Inl e, ctx)
       | Inr r \<Rightarrow>
           (case vector_at (heap ctx) r of
              Inl e \<Rightarrow> (Inl e, ctx)
            | Inr obj \<Rightarrow>
                (case Object_lookup obj slotId of
                   Some descriptor \<Rightarrow> stack_push (Object_getValue obj descriptor) ctx
                 | None \<Rightarrow>
                     (Inl (runtime_error ''Accessing an object's field that doesn't exist.''),
                      ctx))))"

text \<open>\<^verbatim>\<open>doPopIntoObject\<close> (lines 1311-1337): the object is the Value on top, the Value
  to store is the one below it.\<close>

definition doPopIntoObject :: "Id \<Rightarrow> (unit, ExecutionContext_r3) comp" where
  "doPopIntoObject slotId =
     bind stack_peek (\<lambda>t ctx0.
       if \<not> isPtr t
       then (Inl (runtime_error ''Accessing non-object as an object''), ctx0)
       else bind stack_pop (\<lambda>value ctx.
         case getPtr value of
           Inl e \<Rightarrow> (Inl e, ctx)
         | Inr r \<Rightarrow>
             (case vector_at (heap ctx) r of
                Inl e \<Rightarrow> (Inl e, ctx)
              | Inr obj \<Rightarrow>
                  (let object = (case Object_lookup obj slotId of
                                   Some descriptor \<Rightarrow> obj
                                 | None \<Rightarrow> Object_transition obj slotId)
                   in case Object_lookup object slotId of
                        None \<Rightarrow> (Inl assertion_failure, ctx)
                      | Some descriptor \<Rightarrow>
                          bind pop_r3 (\<lambda>val ctx1.
                            (Inr (), ctx1\<lparr>heap :=
                               (heap ctx1)[r := Object_setValue object descriptor val]\<rparr>))
                            ctx))) ctx0)"

text \<open>\<^verbatim>\<open>doCallIndirect\<close> (lines 1339-1341): \<^verbatim>\<open>assert(0)\<close>.\<close>

definition doCallIndirect :: "(unit, ExecutionContext_r3) comp" where
  "doCallIndirect = throw assertion_failure"

text \<open>\<^verbatim>\<open>doSystemCollect\<close> (lines 1343-1346): a collection leaves the stack and the
  objects reachable from it as they are.\<close>

definition doSystemCollect :: "(unit, ExecutionContext_r3) comp" where
  "doSystemCollect = return ()"

text \<open>
  The \<^verbatim>\<open>switch\<close> of \<^verbatim>\<open>interpret\<close> (lines 1053-1139) without the cases
  \<^verbatim>\<open>FUNCTION_CALL\<close> and \<^verbatim>\<open>FUNCTION_RETURN\<close>, which are in \<open>interpret_loop_r3\<close> below. The
  result is what the case adds to \<^verbatim>\<open>instructionPointer\<close>.
\<close>

definition interpret_switch_r3 :: "VM_r3 \<Rightarrow> nat \<Rightarrow> Instruction \<Rightarrow> (Parameter, ExecutionContext_r3) comp" where
  "interpret_switch_r3 vm args instr =
     (if byteCode instr = ByteCode_PRIMITIVE_CALL then
        bind (doPrimitiveCall vm (parameter instr)) (\<lambda>u. return 0)
      else if byteCode instr = ByteCode_JMP then
        return (parameter instr)
      else if byteCode instr = ByteCode_DUPLICATE then
        bind doDuplicate (\<lambda>u. return 0)
      else if byteCode instr = ByteCode_DROP then
        bind doDrop (\<lambda>u. return 0)
      else if byteCode instr = ByteCode_PUSH_FROM_VAR then
        bind (doPushFromVar args (parameter instr)) (\<lambda>u. return 0)
      else if byteCode instr = ByteCode_POP_INTO_VAR then
        bind (doPushIntoVar args (parameter instr)) (\<lambda>u. return 0)
      else if byteCode instr = ByteCode_ADD then
        bind doAdd (\<lambda>u. return 0)
      else if byteCode instr = ByteCode_SUB then
        bind doSub (\<lambda>u. return 0)
      else if byteCode instr = ByteCode_MUL then
        bind doMul (\<lambda>u. return 0)
      else if byteCode instr = ByteCode_DIV then
        bind doDiv (\<lambda>u. return 0)
      else if byteCode instr = ByteCode_INT_PUSH_CONSTANT then
        bind (doIntPushConstant (parameter instr)) (\<lambda>u. return 0)
      else if byteCode instr = ByteCode_NOT then
        bind doNot (\<lambda>u. return 0)
      else if byteCode instr = ByteCode_JMP_EQ_EQ then doJmpEq (parameter instr)
      else if byteCode instr = ByteCode_JMP_EQ_NEQ then doJmpNeq (parameter instr)
      else if byteCode instr = ByteCode_JMP_EQ_GT then doJmpGt (parameter instr)
      else if byteCode instr = ByteCode_JMP_EQ_GE then doJmpGe (parameter instr)
      else if byteCode instr = ByteCode_JMP_EQ_LT then doJmpLt (parameter instr)
      else if byteCode instr = ByteCode_JMP_EQ_LE then doJmpLe (parameter instr)
      else if byteCode instr = ByteCode_STR_PUSH_CONSTANT then
        bind (doStrPushConstant (parameter instr)) (\<lambda>u. return 0)
      else if byteCode instr = ByteCode_NEW_OBJECT then
        bind doNewObject (\<lambda>u. return 0)
      else if byteCode instr = ByteCode_PUSH_FROM_OBJECT then
        bind (doPushFromObject (parameter instr)) (\<lambda>u. return 0)
      else if byteCode instr = ByteCode_POP_INTO_OBJECT then
        bind (doPopIntoObject (parameter instr)) (\<lambda>u. return 0)
      else if byteCode instr = ByteCode_CALL_INDIRECT then
        bind doCallIndirect (\<lambda>u. return 0)
      else if byteCode instr = ByteCode_SYSTEM_COLLECT then
        bind doSystemCollect (\<lambda>u. return 0)
      else throw assertion_failure)"

text \<open>
  \<^verbatim>\<open>ExecutionContext::interpret\<close> of revision 3 (lines 1037-1144) and its \<^verbatim>\<open>while\<close>
  loop. The first argument bounds the number of calls and loop iterations; \<open>None\<close>
  says that the bound was reached. \<open>doFunctionCall\<close> is
  \<^verbatim>\<open>ExecutionContext::doFunctionCall\<close> (lines 1150-1154), which calls \<^verbatim>\<open>interpret\<close> and
  pushes the result. \<^verbatim>\<open>getFunction\<close> and \<^verbatim>\<open>getJitAddress\<close> of the virtual machine are
  the ones of revision 2.
\<close>

fun interpret_r3 ::
    "nat \<Rightarrow> VM_r3 \<Rightarrow> nat \<Rightarrow> ExecutionContext_r3
       \<Rightarrow> ((fault + Value) \<times> ExecutionContext_r3) option"
  and interpret_loop_r3 ::
    "nat \<Rightarrow> VM_r3 \<Rightarrow> FunctionSpec \<Rightarrow> nat \<Rightarrow> int \<Rightarrow> ExecutionContext_r3
       \<Rightarrow> ((fault + Value) \<times> ExecutionContext_r3) option"
  and doFunctionCall ::
    "nat \<Rightarrow> VM_r3 \<Rightarrow> Parameter \<Rightarrow> ExecutionContext_r3
       \<Rightarrow> ((fault + unit) \<times> ExecutionContext_r3) option"
where
  "doFunctionCall fuel vm value ctx =
     (case getFunction vm (size_t_of_Parameter value) of
        Inl e \<Rightarrow> Some (Inl e, ctx)
      | Inr f \<Rightarrow>
          (case interpret_r3 fuel vm (size_t_of_Parameter value) ctx of
             None \<Rightarrow> None
           | Some (Inl e, ctx1) \<Rightarrow> Some (Inl e, ctx1)
           | Some (Inr result, ctx1) \<Rightarrow> Some (push_r3 result ctx1)))"
| "interpret_r3 0 vm functionIndex ctx = None"
| "interpret_r3 (Suc fuel) vm functionIndex ctx =
     (case getFunction vm functionIndex of
        Inl e \<Rightarrow> Some (Inl e, ctx)
      | Inr function \<Rightarrow>
          (case getJitAddress vm functionIndex of
             Inl e \<Rightarrow> Some (Inl e, ctx)
           | Inr (Some jitFunction) \<Rightarrow>
               Some (callJitFunction_r3 vm jitFunction (nargs function) ctx)
           | Inr None \<Rightarrow>
               if nargs function \<le> stack_top ctx
               then (case stack_pushn (nregs function) ctx of
                       (Inl e, ctx1) \<Rightarrow> Some (Inl e, ctx1)
                     | (Inr u, ctx1) \<Rightarrow>
                         interpret_loop_r3 fuel vm function (stack_top ctx - nargs function) 0 ctx1)
               else Some (Inl undefined_behaviour, ctx)))"
| "interpret_loop_r3 0 vm function args ip ctx = None"
| "interpret_loop_r3 (Suc fuel) vm function args ip ctx =
     (case fetch function ip of
        Inl e \<Rightarrow> Some (Inl e, ctx)
      | Inr instr \<Rightarrow>
          if instr = END_SECTION
          then Some (Inl (runtime_error ''Reached end of function''), ctx)
          else if byteCode instr = ByteCode_FUNCTION_CALL then
            (case doFunctionCall fuel vm (parameter instr) ctx of
               None \<Rightarrow> None
             | Some (Inl e, ctx1) \<Rightarrow> Some (Inl e, ctx1)
             | Some (Inr u, ctx1) \<Rightarrow>
                 interpret_loop_r3 fuel vm function args (ip + 1)
                   (ctx1\<lparr>programCounter_r3 := programCounter_r3 ctx1 + 1\<rparr>))
          else if byteCode instr = ByteCode_FUNCTION_RETURN then
            Some (bind stack_pop (\<lambda>result ctx1. (Inr result, stack_restore args ctx1)) ctx)
          else
            (case interpret_switch_r3 vm args instr ctx of
               (Inl e, ctx1) \<Rightarrow> Some (Inl e, ctx1)
             | (Inr delta, ctx1) \<Rightarrow>
                 interpret_loop_r3 fuel vm function args (ip + sint delta + 1)
                   (ctx1\<lparr>programCounter_r3 := programCounter_r3 ctx1 + 1\<rparr>)))"

text \<open>
  The contexts the \<^verbatim>\<open>while\<close> loop of \<open>interpret\<close> of revision 3 passes through:
  \<open>interpret_loop_r3_reaches vm function args ip ctx ip' ctx'\<close> says that the loop,
  entered with the instruction pointer \<open>ip\<close> in the context \<open>ctx\<close>, is at the
  instruction pointer \<open>ip'\<close> in the context \<open>ctx'\<close> after some iterations, each of
  which is a case of the \<^verbatim>\<open>switch\<close> that ends without a fault (rule \<open>step\<close>) or a
  \<^verbatim>\<open>FUNCTION_CALL\<close> whose callee returns (rule \<open>call\<close>). No iteration leaves an
  instruction \<^verbatim>\<open>FUNCTION_RETURN\<close> or the sentinel.
\<close>

inductive interpret_loop_r3_reaches ::
  "VM_r3 \<Rightarrow> FunctionSpec \<Rightarrow> nat \<Rightarrow> int \<Rightarrow> ExecutionContext_r3
     \<Rightarrow> int \<Rightarrow> ExecutionContext_r3 \<Rightarrow> bool"
where
  here: "interpret_loop_r3_reaches vm function args ip ctx ip ctx"
| step: "fetch function ip = Inr instr \<Longrightarrow> instr \<noteq> END_SECTION \<Longrightarrow>
     byteCode instr \<noteq> ByteCode_FUNCTION_CALL \<Longrightarrow>
     byteCode instr \<noteq> ByteCode_FUNCTION_RETURN \<Longrightarrow>
     interpret_switch_r3 vm args instr ctx = (Inr delta, ctx1) \<Longrightarrow>
     interpret_loop_r3_reaches vm function args (ip + sint delta + 1)
       (ctx1\<lparr>programCounter_r3 := programCounter_r3 ctx1 + 1\<rparr>) ip' ctx' \<Longrightarrow>
     interpret_loop_r3_reaches vm function args ip ctx ip' ctx'"
| call: "fetch function ip = Inr instr \<Longrightarrow> instr \<noteq> END_SECTION \<Longrightarrow>
     byteCode instr = ByteCode_FUNCTION_CALL \<Longrightarrow>
     doFunctionCall fuel vm (parameter instr) ctx = Some (Inr u, ctx1) \<Longrightarrow>
     interpret_loop_r3_reaches vm function args (ip + 1)
       (ctx1\<lparr>programCounter_r3 := programCounter_r3 ctx1 + 1\<rparr>) ip' ctx' \<Longrightarrow>
     interpret_loop_r3_reaches vm function args ip ctx ip' ctx'"

subsection \<open>Example programs\<close>

text \<open>
  A module with the functions \<open>f() = g(41)\<close> and \<open>g(x) = x + 1\<close> of scenario S3 of
  the spec, a function \<open>fall\<close> whose bytecode reaches the sentinel without a
  \<^verbatim>\<open>FUNCTION_RETURN\<close>, and two functions \<open>h4\<close> and \<open>h8\<close> of four and eight arguments
  that return their first argument.
\<close>

definition example_f :: FunctionSpec where
  "example_f = \<lparr>name = ''f'', nargs = 0, nregs = 0,
     instructions = [Instruction ByteCode_INT_PUSH_CONSTANT 41,
                     Instruction ByteCode_FUNCTION_CALL 1,
                     Instruction ByteCode_FUNCTION_RETURN 0, END_SECTION]\<rparr>"

definition example_g :: FunctionSpec where
  "example_g = \<lparr>name = ''g'', nargs = 1, nregs = 0,
     instructions = [Instruction ByteCode_PUSH_FROM_VAR 0,
                     Instruction ByteCode_INT_PUSH_CONSTANT 1,
                     Instruction ByteCode_ADD 0,
                     Instruction ByteCode_FUNCTION_RETURN 0, END_SECTION]\<rparr>"

definition example_fall :: FunctionSpec where
  "example_fall = \<lparr>name = ''fall'', nargs = 0, nregs = 0,
     instructions = [Instruction ByteCode_INT_PUSH_CONSTANT 7, END_SECTION]\<rparr>"

definition example_h4 :: FunctionSpec where
  "example_h4 = \<lparr>name = ''h4'', nargs = 4, nregs = 0,
     instructions = [Instruction ByteCode_PUSH_FROM_VAR 0,
                     Instruction ByteCode_FUNCTION_RETURN 0, END_SECTION]\<rparr>"

definition example_h8 :: FunctionSpec where
  "example_h8 = \<lparr>name = ''h8'', nargs = 8, nregs = 0,
     instructions = [Instruction ByteCode_PUSH_FROM_VAR 0,
                     Instruction ByteCode_FUNCTION_RETURN 0, END_SECTION]\<rparr>"

definition example_module :: "'ctx Module" where
  "example_module =
     \<lparr>functions_m = [example_f, example_g, example_fall, example_h4, example_h8],
      strings = [], primitives = []\<rparr>"

text \<open>The default configuration (interpretation only), and the configuration with the
  JIT and the register calling convention.\<close>

definition interpreter_cfg :: Config where
  "interpreter_cfg = \<lparr>maxInlineDepth = 1, jit = False, directCall = False, passParam = False,
     lazyVmState = False, debug = False, verbose = False\<rparr>"

definition passParam_cfg :: Config where
  "passParam_cfg = \<lparr>maxInlineDepth = 1, jit = True, directCall = False, passParam = True,
     lazyVmState = False, debug = False, verbose = False\<rparr>"

text \<open>A virtual machine before any code generation: the table of compiled code is
  empty.\<close>

definition example_vm :: VM where
  "example_vm = \<lparr>cfg = interpreter_cfg, module = example_module, compiledFunctions = []\<rparr>"

text \<open>A virtual machine after \<^verbatim>\<open>generateAllCode\<close>, with a stand-in for the compiled code
  of every function: it returns the sum of its parameters plus 100.\<close>

definition example_jitFunction :: JitFunction where
  "example_jitFunction ps = return (sum_list ps + 100)"

definition example_vm_passParam :: VM where
  "example_vm_passParam =
     \<lparr>cfg = passParam_cfg, module = example_module,
      compiledFunctions = replicate 5 (Some example_jitFunction)\<rparr>"

text \<open>An execution context with the four arguments 1, 2, 3, 4 pushed.\<close>

definition example_ctx4 :: ExecutionContext where
  "example_ctx4 =
     \<lparr>stack = [1, 2, 3, 4] @ replicate 996 0, stackPointer = 4, programCounter = 0\<rparr>"

text \<open>A function \<open>dup() = 5 + 5\<close> written with \<^verbatim>\<open>DUPLICATE\<close>, alone in its module, and
  an execution context with the value 5 pushed.\<close>

definition example_dup :: FunctionSpec where
  "example_dup = \<lparr>name = ''dup'', nargs = 0, nregs = 0,
     instructions = [Instruction ByteCode_INT_PUSH_CONSTANT 5,
                     Instruction ByteCode_DUPLICATE 0,
                     Instruction ByteCode_ADD 0,
                     Instruction ByteCode_FUNCTION_RETURN 0, END_SECTION]\<rparr>"

definition example_vm_dup :: VM where
  "example_vm_dup =
     \<lparr>cfg = interpreter_cfg,
      module = \<lparr>functions_m = [example_dup], strings = [], primitives = []\<rparr>,
      compiledFunctions = []\<rparr>"

definition example_ctx5 :: ExecutionContext where
  "example_ctx5 = \<lparr>stack = [5] @ replicate 999 0, stackPointer = 1, programCounter = 0\<rparr>"

text \<open>For revision 3: the virtual machine before any code generation on a module that
  adds to the functions above a function \<open>div0() = 1 / 0\<close>, a function \<open>lt\<close>
  that compares 1 and 2 with \<^verbatim>\<open>JMP_EQ_LT\<close> and returns 20 when the jump is taken and
  10 when it is not, and a function \<open>eq(a, b)\<close> that compares its arguments with
  \<^verbatim>\<open>JMP_EQ_EQ\<close> and returns 1 when the jump is taken and 0 when it is not; execution
  contexts with given Values pushed.\<close>

definition example_div0 :: FunctionSpec where
  "example_div0 = \<lparr>name = ''div0'', nargs = 0, nregs = 0,
     instructions = [Instruction ByteCode_INT_PUSH_CONSTANT 1,
                     Instruction ByteCode_INT_PUSH_CONSTANT 0,
                     Instruction ByteCode_DIV 0,
                     Instruction ByteCode_FUNCTION_RETURN 0, END_SECTION]\<rparr>"

definition example_lt :: FunctionSpec where
  "example_lt = \<lparr>name = ''lt'', nargs = 0, nregs = 0,
     instructions = [Instruction ByteCode_INT_PUSH_CONSTANT 1,
                     Instruction ByteCode_INT_PUSH_CONSTANT 2,
                     Instruction ByteCode_JMP_EQ_LT 2,
                     Instruction ByteCode_INT_PUSH_CONSTANT 10,
                     Instruction ByteCode_FUNCTION_RETURN 0,
                     Instruction ByteCode_INT_PUSH_CONSTANT 20,
                     Instruction ByteCode_FUNCTION_RETURN 0, END_SECTION]\<rparr>"

definition example_eq :: FunctionSpec where
  "example_eq = \<lparr>name = ''eq'', nargs = 2, nregs = 0,
     instructions = [Instruction ByteCode_PUSH_FROM_VAR 0,
                     Instruction ByteCode_PUSH_FROM_VAR 1,
                     Instruction ByteCode_JMP_EQ_EQ 2,
                     Instruction ByteCode_INT_PUSH_CONSTANT 0,
                     Instruction ByteCode_FUNCTION_RETURN 0,
                     Instruction ByteCode_INT_PUSH_CONSTANT 1,
                     Instruction ByteCode_FUNCTION_RETURN 0, END_SECTION]\<rparr>"

definition example_vm_r3 :: VM_r3 where
  "example_vm_r3 =
     \<lparr>cfg = interpreter_cfg,
      module = \<lparr>functions_m = [example_f, example_g, example_fall, example_div0, example_lt,
                                example_eq],
                strings = [], primitives = []\<rparr>,
      compiledFunctions = []\<rparr>"

definition example_ctx_r3 :: "Value list \<Rightarrow> ExecutionContext_r3" where
  "example_ctx_r3 vs =
     \<lparr>stack_r3 = \<lparr>slots = vs @ replicate (1000 - length vs) (Value_Integer 0),
                   top_slot = length vs\<rparr>,
      programCounter_r3 = 0, heap = []\<rparr>"

text \<open>An execution context of revision 3 given by the Values at the bottom of its
  stack, its stack pointer and its program counter.\<close>

definition example_state_r3 :: "Value list \<Rightarrow> nat \<Rightarrow> nat \<Rightarrow> ExecutionContext_r3" where
  "example_state_r3 vs t pc =
     \<lparr>stack_r3 = \<lparr>slots = vs @ replicate (1000 - length vs) (Value_Integer 0), top_slot = t\<rparr>,
      programCounter_r3 = pc, heap = []\<rparr>"



section \<open>Properties\<close>

lemmas ByteCode_defs =
  ByteCode_END_SECTION_def ByteCode_FUNCTION_CALL_def ByteCode_FUNCTION_RETURN_def
  ByteCode_PRIMITIVE_CALL_def ByteCode_DUPLICATE_def ByteCode_DROP_def
  ByteCode_PUSH_FROM_VAR_def ByteCode_POP_INTO_VAR_def ByteCode_ADD_def ByteCode_SUB_def
  ByteCode_MUL_def ByteCode_DIV_def ByteCode_INT_PUSH_CONSTANT_def ByteCode_NOT_def
  ByteCode_JMP_def ByteCode_JMP_EQ_EQ_def ByteCode_JMP_EQ_NEQ_def ByteCode_JMP_EQ_GT_def
  ByteCode_JMP_EQ_GE_def ByteCode_JMP_EQ_LT_def ByteCode_JMP_EQ_LE_def
  ByteCode_STR_PUSH_CONSTANT_def ByteCode_NEW_OBJECT_def ByteCode_PUSH_FROM_OBJECT_def
  ByteCode_POP_INTO_OBJECT_def ByteCode_CALL_INDIRECT_def ByteCode_SYSTEM_COLLECT_def

subsection \<open>Instruction encoding\<close>

lemma PARAMETER_MASK_eq_mask: "PARAMETER_MASK = mask 24"
  by (simp add: PARAMETER_MASK_def mask_eq_exp_minus_1)

lemma sign_bits_eq: "(0xFF000000 :: 32 word) = NOT (mask 24)"
  by (simp add: mask_eq_exp_minus_1)

lemma byteCode_Instruction: "byteCode (Instruction bc p) = bc"
  unfolding byteCode_def Instruction_def PARAMETER_MASK_eq_mask BYTECODE_SHIFT_def
  by (rule bit_word_eqI) (auto simp add: bit_simps)

lemma parameter_test_bit:
  "(raw AND PARAMETER_MASK) AND 0x00800000 \<noteq> 0 \<longleftrightarrow> bit raw 23"
proof -
  have "bit (raw AND mask 24) 23 \<longleftrightarrow> (raw AND mask 24) AND push_bit 23 1 \<noteq> 0"
    by (rule bit_iff_and_push_bit_not_eq_0)
  moreover have "bit (raw AND mask 24) 23 \<longleftrightarrow> bit raw 23"
    by (simp add: bit_simps)
  ultimately show ?thesis
    by (simp add: PARAMETER_MASK_eq_mask)
qed

text \<open>Decoding the parameter is the sign extension of the low 24 bits.\<close>

lemma parameter_signed_take_bit: "parameter raw = signed_take_bit 23 raw"
proof (cases "bit raw 23")
  case True
  then have "parameter raw = (raw AND mask 24) OR NOT (mask 24)"
    using parameter_test_bit [of raw]
    by (simp add: parameter_def Let_def PARAMETER_MASK_eq_mask sign_bits_eq)
  also have "\<dots> = signed_take_bit 23 raw"
    using True by (intro bit_word_eqI) (auto simp add: bit_simps)
  finally show ?thesis .
next
  case False
  then have "parameter raw = raw AND mask 24"
    using parameter_test_bit [of raw] by (simp add: parameter_def Let_def PARAMETER_MASK_eq_mask)
  also have "\<dots> = signed_take_bit 23 raw"
  proof (rule bit_word_eqI)
    fix n assume "n < LENGTH(32)"
    consider "n < 23" | "n = 23" | "23 < n" by linarith
    then show "bit (raw AND mask 24) n \<longleftrightarrow> bit (signed_take_bit 23 raw) n"
    proof cases
      case 1
      then show ?thesis by (simp add: bit_simps min_def)
    next
      case 2
      with False show ?thesis by (simp add: bit_simps)
    next
      case 3
      with False show ?thesis by (simp add: bit_simps min_def)
    qed
  qed
  finally show ?thesis .
qed

lemma signed_take_bit_Instruction:
  "signed_take_bit 23 (Instruction bc p) = signed_take_bit 23 p"
  unfolding Instruction_def PARAMETER_MASK_eq_mask BYTECODE_SHIFT_def
  by (rule bit_word_eqI) (auto simp add: bit_simps)

lemma signed_take_bit_in_range:
  fixes p :: "32 word"
  assumes "- (2 ^ 23) \<le> sint p" and "sint p < 2 ^ 23"
  shows "signed_take_bit 23 p = p"
proof (rule bit_word_eqI)
  fix n assume n: "n < LENGTH(32)"
  have "signed_take_bit 23 (sint p) = sint p"
    using assms by (simp add: signed_take_bit_int_eq_self)
  then have "bit (sint p) n \<longleftrightarrow> bit (signed_take_bit 23 (sint p)) n"
    by simp
  also have "\<dots> \<longleftrightarrow> bit (sint p) (min 23 n)"
    by (simp only: bit_signed_take_bit_iff possible_bit_int simp_thms)
  finally have "bit (sint p) n \<longleftrightarrow> bit (sint p) (min 23 n)" .
  moreover have "bit (sint p) n \<longleftrightarrow> bit p n"
    using n by (simp add: bit_sint_iff)
  moreover have "bit (sint p) (min 23 n) \<longleftrightarrow> bit p (min 23 n)"
    by (simp add: bit_sint_iff)
  ultimately have "bit p n \<longleftrightarrow> bit p (min 23 n)"
    by simp
  then show "bit (signed_take_bit 23 p) n \<longleftrightarrow> bit p n"
    using n by (simp add: bit_simps)
qed

lemma parameter_Instruction:
  "- (2 ^ 23) \<le> sint p \<Longrightarrow> sint p < 2 ^ 23 \<Longrightarrow> parameter (Instruction bc p) = p"
  by (simp add: parameter_signed_take_bit signed_take_bit_Instruction signed_take_bit_in_range)

text \<open>
  C5. For every opcode \<open>bc\<close> and every immediate \<open>p\<close> with \<open>- 2 ^ 23 \<le> p < 2 ^ 23\<close>,
  the instruction built from the pair decodes to the pair again: \<open>byteCode\<close> gives
  back \<open>bc\<close>, and \<open>parameter\<close>, which extends the sign of the 24-bit immediate to
  32 bits, gives back \<open>p\<close>.
\<close>

theorem Instruction_roundtrip:
  assumes "- (2 ^ 23) \<le> sint p" and "sint p < 2 ^ 23"
  shows "byteCode (Instruction bc p) = bc \<and> parameter (Instruction bc p) = p"
  using assms by (simp add: byteCode_Instruction parameter_Instruction)

theorem Instruction_roundtrip_witness:
  "- (2 ^ 23) \<le> sint (- 5 :: 32 word) \<and> sint (- 5 :: 32 word) < 2 ^ 23
   \<and> byteCode (Instruction ByteCode_JMP (- 5)) = ByteCode_JMP
   \<and> parameter (Instruction ByteCode_JMP (- 5)) = - 5"
  using Instruction_roundtrip [of "- 5" ByteCode_JMP] by simp

subsection \<open>The table of compiled code\<close>

lemma getJitAddress_no_fault: "getJitAddress vm i \<noteq> Inl e"
  by (simp add: getJitAddress_def vector_at_def)

text \<open>
  C10. For every function index \<open>i\<close> that is not below the number of entries of the
  table of compiled code (every index, before any code generation), \<open>getJitAddress\<close>
  returns the null pointer and not a fault, and \<open>callFunction\<close> on this index is the
  interpretation of the function.
\<close>

theorem getJitAddress_beyond_table:
  "length (compiledFunctions vm) \<le> i \<Longrightarrow>
     getJitAddress vm i = Inr None
     \<and> callFunction fuel vm i ctx = interpretFunction fuel vm i ctx"
  by (simp add: getJitAddress_def)

theorem getJitAddress_beyond_table_witness:
  "length (compiledFunctions example_vm) \<le> 0
   \<and> getJitAddress example_vm 0 = Inr None
   \<and> callFunction 20 example_vm 0 ExecutionContext_new
       = interpretFunction 20 example_vm 0 ExecutionContext_new
   \<and> map_option fst (callFunction 20 example_vm 0 ExecutionContext_new) = Some (Inr 42)"
proof -
  have "map_option fst (interpretFunction 20 example_vm 0 ExecutionContext_new) = Some (Inr 42)"
    by code_simp
  then show ?thesis
    using getJitAddress_beyond_table [of example_vm 0 20 ExecutionContext_new]
    by (simp add: example_vm_def)
qed

subsection \<open>\<^verbatim>\<open>VirtualMachine::run\<close>\<close>

text \<open>
  C6. For every call \<open>run(index, usrArgs)\<close> of revision 2 on a function of the
  module: when the number of arguments differs from \<open>nargs\<close> of the function, \<open>run\<close>
  ends with \<open>BadFunctionCallException\<close> whatever the bound on the execution is, and
  leaves the execution context as it was (no argument is pushed, no bytecode is
  executed), so that any later run behaves as if the call had not been made; when the
  numbers are equal, \<open>run\<close> does not end with \<open>BadFunctionCallException\<close>.
\<close>

theorem run_bad_argument_count:
  assumes "getFunction vm functionIndex = Inr function"
  shows "(length usrArgs \<noteq> nargs function \<longrightarrow>
            run_r2 fuel vm functionIndex usrArgs ctx
              = Some (Inl (BadFunctionCallException
                   (BadFunctionCall_message function (length usrArgs))), ctx)
            \<and> run_r2 fuel' vm functionIndex' usrArgs'
                  (snd (the (run_r2 fuel vm functionIndex usrArgs ctx)))
                = run_r2 fuel' vm functionIndex' usrArgs' ctx)
       \<and> (length usrArgs = nargs function \<longrightarrow>
            run_r2 fuel vm functionIndex usrArgs ctx
              \<noteq> Some (Inl (BadFunctionCallException msg), ctx'))"
  using assms
  by (auto simp add: run_r2_def split: sum.splits prod.splits option.splits)

theorem run_bad_argument_count_witness:
  "getFunction example_vm 1 = Inr example_g
   \<and> length ([] :: StackElement list) \<noteq> nargs example_g
   \<and> run_r2 0 example_vm 1 [] ExecutionContext_new
       = Some (Inl (BadFunctionCallException ''g - Got 0 arguments, expected 1''),
               ExecutionContext_new)
   \<and> map_option fst (run_r2 20 example_vm 1 [41]
         (snd (the (run_r2 0 example_vm 1 [] ExecutionContext_new)))) = Some (Inr 42)
   \<and> length [41 :: StackElement] = nargs example_g
   \<and> run_r2 20 example_vm 1 [41] ExecutionContext_new
       \<noteq> Some (Inl (BadFunctionCallException ''g - Got 1 arguments, expected 1''),
               ExecutionContext_new)"
proof -
  have g: "getFunction example_vm 1 = Inr example_g"
    by (simp add: getFunction_def vector_at_def example_vm_def example_module_def)
  have m: "BadFunctionCall_message example_g 0 = ''g - Got 0 arguments, expected 1''"
    by code_simp
  have r: "map_option fst (run_r2 20 example_vm 1 [41] ExecutionContext_new) = Some (Inr 42)"
    by code_simp
  have n: "nargs example_g = 1"
    by (simp add: example_g_def)
  from run_bad_argument_count [OF g, where usrArgs = "[]" and fuel = 0
      and ctx = ExecutionContext_new and fuel' = 20 and functionIndex' = 1 and usrArgs' = "[41]"]
    run_bad_argument_count [OF g, where usrArgs = "[41]" and fuel = 20
      and ctx = ExecutionContext_new and msg = "''g - Got 1 arguments, expected 1''"
      and ctx' = ExecutionContext_new]
  show ?thesis
    using g m r n by simp
qed

text \<open>
  C3, as the code has it. For every invocation of \<open>run\<close> of revision 1 or of
  revision 2 that returns a result, the execution context it leaves is reset: the
  stack pointer is at the base of the stack and the program counter is zero.
\<close>

theorem run_resets_on_return:
  "(run_r1 fuel vm functionIndex usrArgs ctx = Some (Inr result, ctx')
      \<longrightarrow> stackPointer ctx' = 0 \<and> programCounter ctx' = 0)
   \<and> (run_r2 fuel vm functionIndex usrArgs ctx = Some (Inr result, ctx')
      \<longrightarrow> stackPointer ctx' = 0 \<and> programCounter ctx' = 0)"
  by (auto simp add: run_r1_def run_r2_def reset_def
      split: sum.splits prod.splits option.splits if_splits)

theorem run_resets_on_return_witness:
  "map_option fst (run_r1 20 example_vm 0 [] ExecutionContext_new) = Some (Inr 42)
   \<and> map_option (stackPointer \<circ> snd) (run_r1 20 example_vm 0 [] ExecutionContext_new) = Some 0
   \<and> map_option (programCounter \<circ> snd) (run_r1 20 example_vm 0 [] ExecutionContext_new) = Some 0
   \<and> map_option fst (run_r2 20 example_vm 0 [] ExecutionContext_new) = Some (Inr 42)
   \<and> map_option (stackPointer \<circ> snd) (run_r2 20 example_vm 0 [] ExecutionContext_new) = Some 0
   \<and> map_option (programCounter \<circ> snd) (run_r2 20 example_vm 0 [] ExecutionContext_new) = Some 0"
proof -
  have r1: "map_option fst (run_r1 20 example_vm 0 [] ExecutionContext_new) = Some (Inr 42)"
    by code_simp
  have r2: "map_option fst (run_r2 20 example_vm 0 [] ExecutionContext_new) = Some (Inr 42)"
    by code_simp
  from r1 obtain c1 where c1: "run_r1 20 example_vm 0 [] ExecutionContext_new = Some (Inr 42, c1)"
    by (cases "run_r1 20 example_vm 0 [] ExecutionContext_new") auto
  from r2 obtain c2 where c2: "run_r2 20 example_vm 0 [] ExecutionContext_new = Some (Inr 42, c2)"
    by (cases "run_r2 20 example_vm 0 [] ExecutionContext_new") auto
  from c1 run_resets_on_return [of 20 example_vm 0 "[]" ExecutionContext_new 42 c1]
  have "stackPointer c1 = 0 \<and> programCounter c1 = 0" by blast
  moreover from c2 run_resets_on_return [of 20 example_vm 0 "[]" ExecutionContext_new 42 c2]
  have "stackPointer c2 = 0 \<and> programCounter c2 = 0" by blast
  ultimately show ?thesis using c1 c2 by simp
qed

text \<open>
  The claim C3 as it is written fails on the path where the bridge throws. Under the
  register calling convention, \<open>run\<close> of revision 2 on the compiled function \<open>h8\<close> of
  eight arguments pushes the arguments and ends with the fault "too many arguments"
  thrown by \<open>callJitFunctionWithPassParam\<close>; the stack pointer it leaves is eight
  slots above the base of the stack.
\<close>

theorem run_fault_not_reset_counterexample:
  "map_option fst (run_r2 1 example_vm_passParam 4 [1, 2, 3, 4, 5, 6, 7, 8] ExecutionContext_new)
     = Some (Inl (Fault (runtime_error
         ''Interpreter to JIT transition failed: too many arguments'')))
   \<and> map_option (stackPointer \<circ> snd)
        (run_r2 1 example_vm_passParam 4 [1, 2, 3, 4, 5, 6, 7, 8] ExecutionContext_new) = Some 8"
  by code_simp

subsection \<open>The bridge to compiled code under the register calling convention\<close>

lemma pop_eq:
  "0 < stackPointer ctx \<Longrightarrow> stackPointer ctx \<le> length (stack ctx) \<Longrightarrow>
     pop ctx = (Inr (stack ctx ! (stackPointer ctx - 1)), ctx\<lparr>stackPointer := stackPointer ctx - 1\<rparr>)"
  by (simp add: pop_def)

text \<open>Popping \<open>n\<close> parameters gives the \<open>n\<close> topmost stack elements in the order in
  which they were pushed: the element pushed last is the last parameter.\<close>

lemma popParams_pop:
  "n \<le> stackPointer ctx \<Longrightarrow> stackPointer ctx \<le> length (stack ctx) \<Longrightarrow>
     popParams pop n ctx
       = (Inr (take n (drop (stackPointer ctx - n) (stack ctx))),
          ctx\<lparr>stackPointer := stackPointer ctx - n\<rparr>)"
proof (induction n arbitrary: ctx)
  case 0
  then show ?case by (simp add: return_def)
next
  case (Suc n)
  let ?sp = "stackPointer ctx"
  let ?ctx1 = "ctx\<lparr>stackPointer := ?sp - 1\<rparr>"
  have p: "pop ctx = (Inr (stack ctx ! (?sp - 1)), ?ctx1)"
    using Suc.prems by (simp add: pop_eq)
  have r: "popParams pop n ?ctx1
             = (Inr (take n (drop (?sp - 1 - n) (stack ctx))), ctx\<lparr>stackPointer := ?sp - 1 - n\<rparr>)"
    using Suc.IH [of ?ctx1] Suc.prems by simp
  have len: "n < length (drop (?sp - Suc n) (stack ctx))"
    using Suc.prems by simp
  have "take (Suc n) (drop (?sp - Suc n) (stack ctx))
          = take n (drop (?sp - Suc n) (stack ctx)) @ [drop (?sp - Suc n) (stack ctx) ! n]"
    using len by (rule take_Suc_conv_app_nth)
  moreover have "drop (?sp - Suc n) (stack ctx) ! n = stack ctx ! (?sp - 1)"
    using Suc.prems by simp
  ultimately show ?case
    using p r by (simp add: bind_def return_def)
qed

text \<open>
  In revision 2 the bridge does what C7 says: for a compiled function of at most
  seven arguments it pops exactly \<open>nargs\<close> stack elements and calls the compiled code
  with them, the element pushed last as the last parameter; for more than seven
  arguments it throws.
\<close>

lemma callJitFunctionWithPassParam_pops:
  assumes "passParam (cfg vm)" and "getFunction vm index = Inr function"
    and "getJitAddress vm index = Inr (Some jitFunction)"
    and "nargs function \<le> stackPointer ctx" and "stackPointer ctx \<le> length (stack ctx)"
  shows "callJitFunctionWithPassParam vm index ctx =
           (if nargs function \<le> 7
            then jitFunction (take (nargs function)
                                (drop (stackPointer ctx - nargs function) (stack ctx)))
                   (ctx\<lparr>stackPointer := stackPointer ctx - nargs function\<rparr>)
            else (Inl (runtime_error
                    ''Interpreter to JIT transition failed: too many arguments''), ctx))"
  using assms by (simp add: callJitFunctionWithPassParam_def bind_def popParams_pop)

text \<open>
  C7 on revision 1. Under the register calling convention, \<open>interpret\<close> on the
  compiled function \<open>h4\<close> of four arguments, with the arguments 1, 2, 3, 4 on the
  stack, returns 0 as a result: no fault is raised, no argument is popped and the
  compiled code, which would return 110, is not called.
\<close>

theorem interpret_r1_too_many_arguments:
  "interpret_r1 1 example_vm_passParam 3 example_ctx4 = Some (Inr 0, example_ctx4)"
  by code_simp

subsection \<open>\<^verbatim>\<open>DUPLICATE\<close>\<close>

text \<open>In revision 3, \<open>doDuplicate\<close> writes a copy of the top Value into the slot above
  it and moves the top of the stack up by one; no other slot changes.\<close>

lemma doDuplicate_eq:
  assumes "0 < stack_top ctx" and "stack_top ctx < length (slots (stack_r3 ctx))"
  shows "doDuplicate ctx =
           (Inr (),
            ctx\<lparr>stack_r3 :=
              \<lparr>slots = (slots (stack_r3 ctx))
                         [stack_top ctx := slots (stack_r3 ctx) ! (stack_top ctx - 1)],
               top_slot = stack_top ctx + 1\<rparr>\<rparr>)"
  using assms
  by (simp add: doDuplicate_def stack_peek_def push_r3_def stack_push_def bind_def)

text \<open>In revision 2 the case \<^verbatim>\<open>DUPLICATE\<close> of \<open>interpretFunction\<close> leaves the execution
  context as it is.\<close>

lemma interpretFunction_switch_DUPLICATE:
  "byteCode instr = ByteCode_DUPLICATE \<Longrightarrow> interpretFunction_switch vm args instr ctx = (Inr 0, ctx)"
  by (simp add: interpretFunction_switch_def return_def ByteCode_defs)

text \<open>
  C9 on revision 2. With the value 5 on top of the stack, the case \<^verbatim>\<open>DUPLICATE\<close> of
  \<open>interpretFunction\<close> leaves the execution context as it is: no copy of the top is
  pushed. The function \<open>dup() = 5 + 5\<close> then pops below the base of the stack in its
  addition instead of returning 10.
\<close>

theorem DUPLICATE_r2_leaves_stack:
  "interpretFunction_switch example_vm_dup 0 (Instruction ByteCode_DUPLICATE 0) example_ctx5
     = (Inr 0, example_ctx5)
   \<and> map_option fst (run_r2 20 example_vm_dup 0 [] ExecutionContext_new)
       = Some (Inl (Fault undefined_behaviour))"
  by code_simp

subsection \<open>Reaching the sentinel\<close>

text \<open>In revision 3 the loop of \<open>interpret\<close> throws when the instruction pointer is at
  the sentinel; the function \<open>fall\<close>, which has no \<^verbatim>\<open>FUNCTION_RETURN\<close>, fails.\<close>

lemma interpret_loop_r3_END_SECTION:
  "fetch function ip = Inr END_SECTION \<Longrightarrow>
     interpret_loop_r3 (Suc fuel) vm function args ip ctx
       = Some (Inl (runtime_error ''Reached end of function''), ctx)"
  by simp

lemma interpret_r3_falls_through:
  "map_option fst (interpret_r3 3 example_vm_r3 2 ExecutionContext_r3_new)
     = Some (Inl (runtime_error ''Reached end of function''))"
  by code_simp

text \<open>In revisions 1 and 2 the loop ends at the sentinel and the function returns the
  stack element under the stack pointer.\<close>

lemma interpret_loop_r1_NO_MORE_BYTECODES:
  "fetch function ip = Inr NO_MORE_BYTECODES \<Longrightarrow>
     interpret_loop_r1 (Suc fuel) vm function args ip ctx = Some (top_of_stack ctx)"
  by simp

lemma interpretFunction_loop_END_SECTION:
  "fetch function ip = Inr END_SECTION \<Longrightarrow>
     interpretFunction_loop (Suc fuel) vm function args ip ctx = Some (top_of_stack ctx)"
  by simp

text \<open>
  C1 on revision 1. The function \<open>fall\<close>, whose bytecode pushes 7 and then reaches
  the sentinel without a \<^verbatim>\<open>FUNCTION_RETURN\<close>, returns 7 as a result, from \<open>interpret\<close>
  and from \<open>run\<close>: reaching the sentinel is not an error there.
\<close>

theorem interpret_r1_falls_through:
  "map_option fst (interpret_r1 3 example_vm 2 ExecutionContext_new) = Some (Inr 7)
   \<and> map_option fst (run_r1 3 example_vm 2 [] ExecutionContext_new) = Some (Inr 7)"
  by code_simp

subsection \<open>Integer operands in revision 3\<close>

lemma ucast_scast_int32: "ucast (scast (x :: 32 word) :: 48 word) = x"
  by (rule bit_word_eqI) (simp add: bit_ucast_iff bit_word_scast_iff)

lemma pop_getInteger_int32:
  assumes "0 < stack_top ctx" and "stack_top ctx \<le> length (slots (stack_r3 ctx))"
    and "slots (stack_r3 ctx) ! (stack_top ctx - 1) = setInteger_int32 x"
  shows "pop_getInteger ctx =
           (Inr x, ctx\<lparr>stack_r3 := \<lparr>slots = slots (stack_r3 ctx), top_slot = stack_top ctx - 1\<rparr>\<rparr>)"
  using assms
  by (simp add: pop_getInteger_def stack_pop_def bind_def getInteger_def setInteger_int32_def
      setInteger_def ucast_scast_int32)

text \<open>Popping the right operand and then the left operand.\<close>

lemma pop_two_integers:
  assumes "2 \<le> stack_top ctx" and "stack_top ctx \<le> length (slots (stack_r3 ctx))"
    and "slots (stack_r3 ctx) ! (stack_top ctx - 2) = setInteger_int32 l"
    and "slots (stack_r3 ctx) ! (stack_top ctx - 1) = setInteger_int32 r"
  shows "bind pop_getInteger (\<lambda>right. bind pop_getInteger (\<lambda>left. k left right)) ctx
           = k l r (ctx\<lparr>stack_r3 := \<lparr>slots = slots (stack_r3 ctx), top_slot = stack_top ctx - 2\<rparr>\<rparr>)"
proof -
  let ?c1 = "ctx\<lparr>stack_r3 := \<lparr>slots = slots (stack_r3 ctx), top_slot = stack_top ctx - 1\<rparr>\<rparr>"
  have p1: "pop_getInteger ctx = (Inr r, ?c1)"
    using assms by (simp add: pop_getInteger_int32)
  have e: "stack_top ctx - 1 - 1 = stack_top ctx - 2"
    by simp
  have t: "stack_top ?c1 = stack_top ctx - 1"
    by (simp add: stack_top_def)
  have s: "stack_r3 ?c1 = \<lparr>slots = slots (stack_r3 ctx), top_slot = stack_top ctx - 1\<rparr>"
    by simp
  have "pop_getInteger ?c1 =
      (Inr l, ?c1\<lparr>stack_r3 := \<lparr>slots = slots (stack_r3 ?c1), top_slot = stack_top ?c1 - 1\<rparr>\<rparr>)"
  proof (rule pop_getInteger_int32)
    show "0 < stack_top ?c1" using assms(1) by (simp only: t, (simp)?)
    show "stack_top ?c1 \<le> length (slots (stack_r3 ?c1))"
      using assms(2) by (simp only: t s, (simp)?)
    show "slots (stack_r3 ?c1) ! (stack_top ?c1 - 1) = setInteger_int32 l"
      using assms(3) by (simp only: t s e, (simp)?)
  qed
  then have p2: "pop_getInteger ?c1 =
      (Inr l, ctx\<lparr>stack_r3 := \<lparr>slots = slots (stack_r3 ctx), top_slot = stack_top ctx - 2\<rparr>\<rparr>)"
    by (simp only: t s e, (simp)?)
  show ?thesis
    by (simp add: bind_def p1 p2 del: One_nat_def)
qed




subsection \<open>\<^verbatim>\<open>DIV\<close>\<close>

text \<open>With a right operand that is not zero and a quotient that is representable,
  \<open>doDiv\<close> replaces the two operands by the quotient truncated towards zero.\<close>

lemma doDiv_quotient:
  assumes "2 \<le> stack_top ctx" and "stack_top ctx \<le> length (slots (stack_r3 ctx))"
    and "slots (stack_r3 ctx) ! (stack_top ctx - 2) = setInteger_int32 l"
    and "slots (stack_r3 ctx) ! (stack_top ctx - 1) = setInteger_int32 r"
    and "r \<noteq> 0" and "\<not> (sint l = - (2 ^ 31) \<and> sint r = - 1)"
  shows "doDiv ctx =
           (Inr (),
            ctx\<lparr>stack_r3 :=
              \<lparr>slots = (slots (stack_r3 ctx))
                 [stack_top ctx - 2 := setInteger_int32 (word_of_int (sint l sdiv sint r))],
               top_slot = stack_top ctx - 1\<rparr>\<rparr>)"
proof -
  have "doDiv ctx =
      push_r3 (setInteger_int32 (word_of_int (sint l sdiv sint r)))
        (ctx\<lparr>stack_r3 := \<lparr>slots = slots (stack_r3 ctx), top_slot = stack_top ctx - 2\<rparr>\<rparr>)"
    unfolding doDiv_def
    using assms(5,6) by (auto simp add: pop_two_integers [OF assms(1-4)] int32_divide_def)
  then show ?thesis
    using assms(1,2) by (simp add: push_r3_def stack_push_def stack_top_def Suc_diff_Suc numeral_2_eq_2)
qed

lemma doDiv_by_zero:
  assumes "2 \<le> stack_top ctx" and "stack_top ctx \<le> length (slots (stack_r3 ctx))"
    and "slots (stack_r3 ctx) ! (stack_top ctx - 2) = setInteger_int32 l"
    and "slots (stack_r3 ctx) ! (stack_top ctx - 1) = setInteger_int32 0"
  shows "fst (doDiv ctx) = Inl undefined_behaviour"
  unfolding doDiv_def
  by (simp add: pop_two_integers [OF assms(1-4)] int32_divide_def)

text \<open>
  C2 on the code. For the operands \<open>l = 1\<close> and \<open>r = 0\<close>, \<open>doDiv\<close> divides without a
  test of \<open>r\<close>: the outcome is the undefined behaviour of the division of C++, not a
  thrown runtime error; so is the outcome of the function \<open>div0() = 1 / 0\<close>.
\<close>

theorem doDiv_zero_divisor:
  "fst (doDiv (example_ctx_r3 [setInteger_int32 1, setInteger_int32 0])) = Inl undefined_behaviour
   \<and> map_option fst (interpret_r3 20 example_vm_r3 3 ExecutionContext_r3_new)
       = Some (Inl undefined_behaviour)"
  by code_simp

subsection \<open>Conditional jumps\<close>







subsection \<open>Return from a function\<close>

lemma stack_top_restore: "stack_top (stack_restore p ctx) = p"
  by (simp add: stack_top_def stack_restore_def)

text \<open>The case \<^verbatim>\<open>FUNCTION_RETURN\<close>: the Value under the stack pointer is the result, and
  the stack pointer is restored to \<open>args\<close>.\<close>

lemma interpret_loop_r3_FUNCTION_RETURN:
  assumes "fetch function ip = Inr instr" and "instr \<noteq> END_SECTION"
    and "byteCode instr = ByteCode_FUNCTION_RETURN"
    and "0 < stack_top ctx" and "stack_top ctx \<le> length (slots (stack_r3 ctx))"
  shows "interpret_loop_r3 (Suc fuel) vm function args ip ctx =
           Some (Inr (slots (stack_r3 ctx) ! (stack_top ctx - 1)),
                 ctx\<lparr>stack_r3 := \<lparr>slots = slots (stack_r3 ctx), top_slot = args\<rparr>\<rparr>)"
  using assms
  by (simp add: bind_def stack_pop_def stack_restore_def ByteCode_defs)

text \<open>Whenever the loop of \<open>interpret\<close> returns a result, it has reached a
  \<^verbatim>\<open>FUNCTION_RETURN\<close> in a context \<open>c\<close> whose Value under the stack pointer is the
  result, and the context it leaves is \<open>c\<close> with the stack pointer at \<open>args\<close>.\<close>

lemma interpret_loop_r3_returns:
  "interpret_loop_r3 fuel vm function args ip ctx = Some (Inr result, ctx') \<Longrightarrow>
     \<exists>ip' c instr. interpret_loop_r3_reaches vm function args ip ctx ip' c
        \<and> fetch function ip' = Inr instr \<and> instr \<noteq> END_SECTION
        \<and> byteCode instr = ByteCode_FUNCTION_RETURN
        \<and> 0 < stack_top c \<and> stack_top c \<le> length (slots (stack_r3 c))
        \<and> result = slots (stack_r3 c) ! (stack_top c - 1)
        \<and> ctx' = c\<lparr>stack_r3 := \<lparr>slots = slots (stack_r3 c), top_slot = args\<rparr>\<rparr>"
proof (induction fuel arbitrary: ip ctx)
  case 0
  then show ?case by simp
next
  case (Suc fuel)
  from Suc.prems obtain instr where f: "fetch function ip = Inr instr"
    by (cases "fetch function ip") auto
  from Suc.prems f have ne: "instr \<noteq> END_SECTION"
    by (auto split: if_splits)
  consider (call) "byteCode instr = ByteCode_FUNCTION_CALL"
    | (ret) "byteCode instr \<noteq> ByteCode_FUNCTION_CALL" "byteCode instr = ByteCode_FUNCTION_RETURN"
    | (step) "byteCode instr \<noteq> ByteCode_FUNCTION_CALL" "byteCode instr \<noteq> ByteCode_FUNCTION_RETURN"
    by blast
  then show ?case
  proof cases
    case call
    with Suc.prems f ne obtain u ctx1 where
      d: "doFunctionCall fuel vm (parameter instr) ctx = Some (Inr u, ctx1)"
      and l: "interpret_loop_r3 fuel vm function args (ip + 1)
                (ctx1\<lparr>programCounter_r3 := programCounter_r3 ctx1 + 1\<rparr>) = Some (Inr result, ctx')"
      by (simp split: sum.splits option.splits prod.splits) 
    from Suc.IH [OF l] interpret_loop_r3_reaches.call [OF f ne call d]
    show ?thesis by blast
  next
    case ret
    with Suc.prems f ne have r: "bind stack_pop (\<lambda>result ctx1. (Inr result, stack_restore args ctx1)) ctx
        = (Inr result, ctx')"
      by simp
    then have "0 < stack_top ctx" "stack_top ctx \<le> length (slots (stack_r3 ctx))"
      "result = slots (stack_r3 ctx) ! (stack_top ctx - 1)"
      "ctx' = ctx\<lparr>stack_r3 := \<lparr>slots = slots (stack_r3 ctx), top_slot = args\<rparr>\<rparr>"
      by (auto simp add: bind_def stack_pop_def stack_restore_def split: if_splits)
    with f ne ret(2) interpret_loop_r3_reaches.here [of vm "function" args ip ctx] show ?thesis by blast
  next
    case step
    with Suc.prems f ne obtain delta ctx1 where
      s: "interpret_switch_r3 vm args instr ctx = (Inr delta, ctx1)"
      and l: "interpret_loop_r3 fuel vm function args (ip + sint delta + 1)
                (ctx1\<lparr>programCounter_r3 := programCounter_r3 ctx1 + 1\<rparr>) = Some (Inr result, ctx')"
      by (simp split: sum.splits prod.splits)
    from Suc.IH [OF l] interpret_loop_r3_reaches.step [OF f ne step s]
    show ?thesis by blast
  qed
qed

text \<open>The loop of \<open>interpret\<close> on \<open>g(x) = x + 1\<close> with the argument 41: after three
  iterations it is at the \<^verbatim>\<open>FUNCTION_RETURN\<close> with 42 under the stack pointer.\<close>

lemma interpret_loop_r3_reaches_example:
  "interpret_loop_r3_reaches example_vm_r3 example_g 0
     0 (example_state_r3 [Value_Integer 41] 1 0)
     3 (example_state_r3 [Value_Integer 41, Value_Integer 42, Value_Integer 1] 2 3)"
proof -
  let ?vm = example_vm_r3
  let ?c0 = "example_state_r3 [Value_Integer 41] 1 0"
  let ?c1 = "example_state_r3 [Value_Integer 41, Value_Integer 41] 2 0"
  let ?c2 = "example_state_r3 [Value_Integer 41, Value_Integer 41, Value_Integer 1] 3 1"
  let ?c3 = "example_state_r3 [Value_Integer 41, Value_Integer 42, Value_Integer 1] 2 2"
  let ?end = "example_state_r3 [Value_Integer 41, Value_Integer 42, Value_Integer 1] 2 3"
  let ?i0 = "Instruction ByteCode_PUSH_FROM_VAR 0"
  let ?i1 = "Instruction ByteCode_INT_PUSH_CONSTANT 1"
  let ?i2 = "Instruction ByteCode_ADD 0"
  have f: "fetch example_g 0 = Inr ?i0" "fetch example_g 1 = Inr ?i1" "fetch example_g 2 = Inr ?i2"
    by (simp_all add: fetch_def example_g_def)
  have n: "?i0 \<noteq> END_SECTION" "?i1 \<noteq> END_SECTION" "?i2 \<noteq> END_SECTION"
    "byteCode ?i0 \<noteq> ByteCode_FUNCTION_CALL" "byteCode ?i1 \<noteq> ByteCode_FUNCTION_CALL"
    "byteCode ?i2 \<noteq> ByteCode_FUNCTION_CALL"
    "byteCode ?i0 \<noteq> ByteCode_FUNCTION_RETURN" "byteCode ?i1 \<noteq> ByteCode_FUNCTION_RETURN"
    "byteCode ?i2 \<noteq> ByteCode_FUNCTION_RETURN"
    by code_simp+
  have s0: "interpret_switch_r3 ?vm 0 ?i0 ?c0 = (Inr 0, ?c1)"
    by code_simp
  have s1: "interpret_switch_r3 ?vm 0 ?i1 (?c1\<lparr>programCounter_r3 := programCounter_r3 ?c1 + 1\<rparr>)
              = (Inr 0, ?c2)"
    by code_simp
  have s2: "interpret_switch_r3 ?vm 0 ?i2 (?c2\<lparr>programCounter_r3 := programCounter_r3 ?c2 + 1\<rparr>)
              = (Inr 0, ?c3)"
    by code_simp
  have e: "?c3\<lparr>programCounter_r3 := programCounter_r3 ?c3 + 1\<rparr> = ?end"
    by (simp add: example_state_r3_def)
  have "interpret_loop_r3_reaches ?vm example_g 0 (2 + sint (0 :: 32 word) + 1)
          (?c3\<lparr>programCounter_r3 := programCounter_r3 ?c3 + 1\<rparr>) 3 ?end"
    using interpret_loop_r3_reaches.here [of ?vm example_g 0 3 ?end] by (simp only: e) simp
  from interpret_loop_r3_reaches.step [OF f(3) n(3) n(6) n(9) s2 this]
  have "interpret_loop_r3_reaches ?vm example_g 0 (0 + sint (0 :: 32 word) + 1 + sint (0 :: 32 word) + 1)
          (?c2\<lparr>programCounter_r3 := programCounter_r3 ?c2 + 1\<rparr>) 3 ?end"
    by simp
  from interpret_loop_r3_reaches.step [OF _ n(2) n(5) n(8) s1 this]
  have "interpret_loop_r3_reaches ?vm example_g 0 (0 + sint (0 :: 32 word) + 1)
          (?c1\<lparr>programCounter_r3 := programCounter_r3 ?c1 + 1\<rparr>) 3 ?end"
    using f(2) by simp
  from interpret_loop_r3_reaches.step [OF f(1) n(1) n(4) n(7) s0 this]
  show ?thesis .
qed

lemma push_r3_Inr:
  "push_r3 v ctx = (Inr u, ctx2) \<Longrightarrow>
     stack_top ctx2 = stack_top ctx + 1 \<and> slots (stack_r3 ctx2) ! stack_top ctx = v"
  by (auto simp add: push_r3_def stack_push_def stack_top_def split: if_splits)

text \<open>
  C4. For every call of an interpreted function by \<open>doFunctionCall\<close> of revision 3 that
  runs to completion: the loop of \<open>interpret\<close>, entered after the locals are
  reserved, reaches a \<^verbatim>\<open>FUNCTION_RETURN\<close> in a context \<open>c\<close>; the result of \<open>interpret\<close>
  is the Value of \<open>c\<close> at the stack pointer minus one; \<open>interpret\<close> leaves \<open>c\<close> with
  the stack pointer restored to \<open>args\<close>, the stack pointer at the entry of the call
  minus \<open>nargs\<close>; and the caller pushes the result, so that the stack pointer ends one
  slot above its position before the arguments were pushed, with the result in that
  slot.
\<close>

theorem function_return_restores_stack:
  assumes "getJitAddress vm (size_t_of_Parameter value) = Inr None"
    and "getFunction vm (size_t_of_Parameter value) = Inr function"
    and "doFunctionCall fuel vm value ctx = Some (Inr (), ctx2)"
  shows "\<exists>result ctx1 ctx0 ip c instr.
           interpret_r3 fuel vm (size_t_of_Parameter value) ctx = Some (Inr result, ctx1)
         \<and> nargs function \<le> stack_top ctx
         \<and> stack_pushn (nregs function) ctx = (Inr (), ctx0)
         \<and> interpret_loop_r3_reaches vm function (stack_top ctx - nargs function) 0 ctx0 ip c
         \<and> fetch function ip = Inr instr \<and> instr \<noteq> END_SECTION
         \<and> byteCode instr = ByteCode_FUNCTION_RETURN
         \<and> 0 < stack_top c \<and> result = slots (stack_r3 c) ! (stack_top c - 1)
         \<and> ctx1 = c\<lparr>stack_r3 := \<lparr>slots = slots (stack_r3 c),
                                   top_slot = stack_top ctx - nargs function\<rparr>\<rparr>
         \<and> stack_top ctx1 = stack_top ctx - nargs function
         \<and> push_r3 result ctx1 = (Inr (), ctx2)
         \<and> stack_top ctx2 = stack_top ctx - nargs function + 1
         \<and> slots (stack_r3 ctx2) ! (stack_top ctx - nargs function) = result"
proof -
  let ?index = "size_t_of_Parameter value"
  let ?args = "stack_top ctx - nargs function"
  from assms(2,3) obtain result ctx1 where
    i: "interpret_r3 fuel vm ?index ctx = Some (Inr result, ctx1)"
    and p: "push_r3 result ctx1 = (Inr (), ctx2)"
    by (auto split: option.splits sum.splits prod.splits)
  from i obtain m where fuel: "fuel = Suc m"
    by (cases fuel) auto
  from i assms(1,2) have le: "nargs function \<le> stack_top ctx"
    by (auto simp add: fuel split: if_splits)
  from i assms(1,2) le obtain c0 where
    n: "stack_pushn (nregs function) ctx = (Inr (), c0)"
    and l: "interpret_loop_r3 m vm function ?args 0 c0 = Some (Inr result, ctx1)"
    by (auto simp add: fuel split: sum.splits prod.splits)
  from interpret_loop_r3_returns [OF l] obtain ip c instr where
    r: "interpret_loop_r3_reaches vm function ?args 0 c0 ip c" "fetch function ip = Inr instr"
      "instr \<noteq> END_SECTION" "byteCode instr = ByteCode_FUNCTION_RETURN"
      "0 < stack_top c" "result = slots (stack_r3 c) ! (stack_top c - 1)"
      "ctx1 = c\<lparr>stack_r3 := \<lparr>slots = slots (stack_r3 c), top_slot = ?args\<rparr>\<rparr>"
    by blast
  from r(7) have t: "stack_top ctx1 = ?args"
    by (simp add: stack_top_def)
  from push_r3_Inr [OF p] t have
    "stack_top ctx2 = ?args + 1" "slots (stack_r3 ctx2) ! ?args = result"
    by simp_all
  with i le n r t p show ?thesis by blast
qed

theorem function_return_restores_stack_witness:
  "getJitAddress example_vm_r3 (size_t_of_Parameter 1) = Inr None
   \<and> getFunction example_vm_r3 (size_t_of_Parameter 1) = Inr example_g
   \<and> map_option fst (doFunctionCall 20 example_vm_r3 1 (example_ctx_r3 [setInteger_int32 41]))
       = Some (Inr ())
   \<and> stack_top (example_ctx_r3 [setInteger_int32 41]) = 1 \<and> nargs example_g = 1
   \<and> stack_top (snd (the (doFunctionCall 20 example_vm_r3 1
         (example_ctx_r3 [setInteger_int32 41])))) = 1
   \<and> slots (stack_r3 (snd (the (doFunctionCall 20 example_vm_r3 1
         (example_ctx_r3 [setInteger_int32 41]))))) ! 0 = Value_Integer 42"
proof -
  let ?ctx = "example_ctx_r3 [setInteger_int32 41]"
  have s: "size_t_of_Parameter 1 = 1"
    by (simp add: size_t_of_Parameter_def)
  have j: "getJitAddress example_vm_r3 (size_t_of_Parameter 1) = Inr None"
    by (simp add: s getJitAddress_def example_vm_r3_def)
  have g: "getFunction example_vm_r3 (size_t_of_Parameter 1) = Inr example_g"
    by (simp add: s getFunction_def vector_at_def example_vm_r3_def)
  have d: "map_option fst (doFunctionCall 20 example_vm_r3 1 ?ctx) = Some (Inr ())"
    by code_simp
  have v: "slots (stack_r3 (snd (the (doFunctionCall 20 example_vm_r3 1 ?ctx)))) ! 0
             = Value_Integer 42"
    by code_simp
  have t: "stack_top ?ctx = 1" "nargs example_g = 1"
    by (simp_all add: example_ctx_r3_def stack_top_def example_g_def)
  from d obtain ctx2 where c: "doFunctionCall 20 example_vm_r3 1 ?ctx = Some (Inr (), ctx2)"
    by (cases "doFunctionCall 20 example_vm_r3 1 ?ctx") auto
  from function_return_restores_stack [OF j g c] have "stack_top ctx2 = 1"
    by (auto simp add: t)
  then show ?thesis
    using j g d v t c by simp
qed

end
